theory Spec2Isabelle
  imports Main "HOL-Library.Multiset"
begin

section \<open>Photoshare API: the two server variants\<close>

text \<open>
  The repository holds the same REST API twice: once over MongoDB through mongoose
  (server.js, the definitions prefixed \<open>mongo_\<close>) and once over MySQL through mysql2
  (the second source file, the definitions prefixed \<open>mysql_\<close>). Every route handler is
  embedded as a function from the store and the request's inputs to the response and the
  store after the request.

  What the embedding fixes:
  \<^item> Identifiers (ObjectIds, auto-increment keys, the \<open>userId\<close> of a token) are natural
    numbers, and a route parameter \<open>:id\<close> is the identifier it denotes. A parameter that
    denotes none (in the MongoDB variant \<open>findById\<close> throws on it and the handler's catch
    block answers 500) is outside the model.
  \<^item> A request field that a handler tests for truthiness is a \<open>string option\<close>, \<open>None\<close>
    for a field that is not sent; the password of a login may also be a value that is
    no string (\<open>field\<close>).
  \<^item> Where a lookup names no order and several users match, which one the storage
    returns is a parameter (\<open>storage_choice\<close>).
  \<^item> A handler runs from its first statement to its response before the next request
    is served.
  \<^item> The catch blocks (status 500) are reached only when a library call throws. The
    calls whose outcome depends on the request's inputs are modelled with their
    failure: the paginated query, and \<open>bcrypt.compare\<close> on a password that is no
    string. A storage that fails by itself is not.
\<close>

subsection \<open>Responses\<close>

text \<open>
  The error texts of the source, in its order of appearance:
  \<^item> \<open>MissingAuthHeader\<close>: "Hianyzo Authorization header"
  \<^item> \<open>MissingToken\<close>: "Hianyzo token"
  \<^item> \<open>InvalidToken\<close>: "Ervenytelen token"
  \<^item> \<open>RegisterFieldsRequired\<close>: "username, email, password kotelezo"
  \<^item> \<open>UserAlreadyExists\<close>: "A felhasznalo mar letezik (email vagy username foglalt)"
  \<^item> \<open>LoginFieldsRequired\<close>: "emailOrUsername es password kotelezo"
  \<^item> \<open>BadCredentials\<close>: "Hibas belepesi adatok"
  \<^item> \<open>MissingImageFile\<close>: "Hianyzo image fajl"
  \<^item> \<open>PhotoNotFound\<close>: "Foto nem talalhato"
  \<^item> \<open>TextRequired\<close>: "text kotelezo"
  \<^item> \<open>ServerFault\<close>: "Szerver hiba"
\<close>

datatype msg =
    MissingAuthHeader
  | MissingToken
  | InvalidToken
  | RegisterFieldsRequired
  | UserAlreadyExists
  | LoginFieldsRequired
  | BadCredentials
  | MissingImageFile
  | PhotoNotFound
  | TextRequired
  | ServerFault

text \<open>
  \<open>Error c m\<close> is \<open>res.status(c).json({ error: m })\<close>; \<open>Success c x\<close> is
  \<open>res.status(c).json(x)\<close>, with \<open>c = 200\<close> for a plain \<open>res.json(x)\<close>.
\<close>

datatype 'a response = Error nat msg | Success nat 'a

subsection \<open>JavaScript values\<close>

text \<open>
  A number as the handlers compute with it. JavaScript numbers are doubles: an integer
  of magnitude up to \<open>2 ^ 53\<close> is one exactly, and \<open>Num i\<close> is used for those only.
  \<open>Inexact\<close> stands for every other outcome of reading a numeral or of arithmetic: a
  number that was rounded, an infinity, or what arithmetic on such a value gives. The
  model does not say which value that is. \<open>Num 0\<close> stands for both zeros.
\<close>

datatype jsnum = NaN | Num int | Inexact

definition exact :: "int \<Rightarrow> jsnum" where
  "exact i = (if \<bar>i\<bar> \<le> 2 ^ 53 then Num i else Inexact)"

fun js_sub :: "jsnum \<Rightarrow> jsnum \<Rightarrow> jsnum" where
  "js_sub NaN b = NaN"
| "js_sub a NaN = NaN"
| "js_sub (Num a) (Num b) = exact (a - b)"
| "js_sub a b = Inexact"

fun js_mul :: "jsnum \<Rightarrow> jsnum \<Rightarrow> jsnum" where
  "js_mul NaN b = NaN"
| "js_mul a NaN = NaN"
| "js_mul (Num a) (Num b) = exact (a * b)"
| "js_mul a b = Inexact"

text \<open>\<open>!v\<close> for a field that is a string or is missing.\<close>

definition falsy :: "string option \<Rightarrow> bool" where
  "falsy v = (case v of None \<Rightarrow> True | Some s \<Rightarrow> s = [])"

text \<open>\<open>v || d\<close> for the same.\<close>

definition or_default :: "string option \<Rightarrow> string \<Rightarrow> string" where
  "or_default v d = (case v of None \<Rightarrow> d | Some s \<Rightarrow> if s = [] then d else s)"

text \<open>
  Strings are the UTF-8 bytes of the JavaScript strings. The white space that
  \<open>parseInt\<close> skips is the six ASCII characters tab, line feed, vertical tab, form feed,
  carriage return and space, and beyond ASCII the characters U+00A0, U+1680, U+2000 to
  U+200A, U+2028, U+2029, U+202F, U+205F, U+3000 and U+FEFF, listed here by their bytes.
\<close>

definition is_space :: "char \<Rightarrow> bool" where
  "is_space c = (c \<in> set [CHR 0x09, CHR 0x0A, CHR 0x0B, CHR 0x0C, CHR 0x0D, CHR 0x20])"

definition unicode_spaces :: "string list" where
  "unicode_spaces =
     [[CHR 0xC2, CHR 0xA0],
      [CHR 0xE1, CHR 0x9A, CHR 0x80],
      [CHR 0xE2, CHR 0x80, CHR 0x80], [CHR 0xE2, CHR 0x80, CHR 0x81],
      [CHR 0xE2, CHR 0x80, CHR 0x82], [CHR 0xE2, CHR 0x80, CHR 0x83],
      [CHR 0xE2, CHR 0x80, CHR 0x84], [CHR 0xE2, CHR 0x80, CHR 0x85],
      [CHR 0xE2, CHR 0x80, CHR 0x86], [CHR 0xE2, CHR 0x80, CHR 0x87],
      [CHR 0xE2, CHR 0x80, CHR 0x88], [CHR 0xE2, CHR 0x80, CHR 0x89],
      [CHR 0xE2, CHR 0x80, CHR 0x8A],
      [CHR 0xE2, CHR 0x80, CHR 0xA8], [CHR 0xE2, CHR 0x80, CHR 0xA9],
      [CHR 0xE2, CHR 0x80, CHR 0xAF],
      [CHR 0xE2, CHR 0x81, CHR 0x9F],
      [CHR 0xE3, CHR 0x80, CHR 0x80],
      [CHR 0xEF, CHR 0xBB, CHR 0xBF]]"

text \<open>The number of bytes of the white-space character a string starts with, or 0.\<close>

definition white_space_length :: "string \<Rightarrow> nat" where
  "white_space_length s =
     (case s of
        [] \<Rightarrow> 0
      | c # r \<Rightarrow>
          if is_space c then 1
          else (case filter (\<lambda>w. take (length w) s = w) unicode_spaces of
                  [] \<Rightarrow> 0
                | w # ws \<Rightarrow> length w))"

function trim_start :: "string \<Rightarrow> string" where
  "trim_start s =
     (if white_space_length s = 0 then s else trim_start (drop (white_space_length s) s))"
  by pat_completeness auto
termination
proof (relation "measure length")
  show "wf (measure length)" by simp
next
  fix s :: string
  assume "white_space_length s \<noteq> 0"
  then have "s \<noteq> []" by (auto simp: white_space_length_def)
  then show "(drop (white_space_length s) s, s) \<in> measure length"
    using \<open>white_space_length s \<noteq> 0\<close> by (cases s) auto
qed

declare trim_start.simps [simp del]

definition is_digit :: "char \<Rightarrow> bool" where
  "is_digit c = (48 \<le> (of_char c :: nat) \<and> (of_char c :: nat) \<le> 57)"

fun digits_value :: "nat \<Rightarrow> string \<Rightarrow> nat" where
  "digits_value acc [] = acc"
| "digits_value acc (c # cs) = digits_value (10 * acc + (of_char c - 48)) cs"

text \<open>
  \<open>parseInt(s, 10)\<close>: leading white space is dropped, one sign is read, and the longest
  prefix of decimal digits is the value; with no digit there, the result is \<open>NaN\<close>.
  What follows the digits is ignored. A value beyond \<open>2 ^ 53\<close> is not exact.
\<close>

definition parseInt :: "string \<Rightarrow> jsnum" where
  "parseInt s =
     (let t = trim_start s;
          neg = (case t of [] \<Rightarrow> False | c # _ \<Rightarrow> c = CHR ''-'');
          u = (case t of [] \<Rightarrow> [] | c # r \<Rightarrow> if c = CHR ''-'' \<or> c = CHR ''+'' then r else t);
          z = takeWhile is_digit u
      in if z = [] then NaN
         else exact ((if neg then - 1 else 1) * int (digits_value 0 z)))"

text \<open>
  \<open>s.split(sep)\<close> for a one-character separator: every occurrence of the separator
  ends a part, so two separators in a row give an empty part, and the empty string has
  the one part \<open>""\<close>.
\<close>

fun split :: "char \<Rightarrow> string \<Rightarrow> string list" where
  "split sep [] = [[]]"
| "split sep (c # cs) =
     (if c = sep then [] # split sep cs
      else (case split sep cs of [] \<Rightarrow> [[c]] | p # ps \<Rightarrow> (c # p) # ps))"

subsection \<open>The libraries and the clock\<close>

text \<open>
  What a request draws from outside the program is a parameter of its handler:
  \<^item> \<open>jwt_verify E t\<close> is \<open>jwt.verify(t, JWT_SECRET)\<close> at the time of the request:
    \<open>Some\<close> the payload's \<open>userId\<close>, or \<open>None\<close> when verification reports an error
    (malformed, bad signature, expired);
  \<^item> \<open>jwt_sign E uid\<close> is \<open>jwt.sign({ userId: uid }, JWT_SECRET, { expiresIn: "7d" })\<close>;
  \<^item> \<open>bcrypt_hash E p\<close> is \<open>bcrypt.hash(p, 10)\<close> with the salt it draws;
  \<^item> \<open>bcrypt_compare E p h\<close> is \<open>bcrypt.compare(p, h)\<close> for a string \<open>p\<close>;
  \<^item> \<open>bcrypt_compare_nonstring E\<close> is \<open>bcrypt.compare(v, h)\<close> for a \<open>v\<close> that is not a
    string: \<open>None\<close> when the call throws, \<open>Some\<close> its answer otherwise;
  \<^item> \<open>storage_choice E ids\<close> is the position, among the matching users listed by id in
    insertion order, of the one that a lookup without an order (\<open>findOne\<close>, \<open>LIMIT 1\<close>)
    returns; it is taken modulo their number;
  \<^item> \<open>cursor_other E skip limit n\<close> is what the storage does with a skip or limit
    outside the plain range when \<open>n\<close> results matched: \<open>None\<close> when it rejects the query,
    or the numbers of results it drops and then keeps;
  \<^item> \<open>new_oid E\<close> is the ObjectId mongoose generates for a created document;
  \<^item> \<open>now E\<close> is the clock, in milliseconds.
\<close>

record env =
  jwt_verify :: "string \<Rightarrow> nat option"
  jwt_sign :: "nat \<Rightarrow> string"
  bcrypt_hash :: "string \<Rightarrow> string"
  bcrypt_compare :: "string \<Rightarrow> string \<Rightarrow> bool"
  bcrypt_compare_nonstring :: "bool option"
  storage_choice :: "nat list \<Rightarrow> nat"
  cursor_other :: "jsnum \<Rightarrow> jsnum \<Rightarrow> nat \<Rightarrow> (nat \<times> nat) option"
  new_oid :: nat
  now :: int

subsection \<open>The authentication guard\<close>

text \<open>
  \<open>authRequired\<close> is the same function in both files. It either answers 401 itself
  (\<open>Inl\<close>) or sets \<open>req.userId\<close> and calls \<open>next()\<close> (\<open>Inr\<close> the user id). The header is
  \<open>None\<close> when the request has no Authorization header.
\<close>

definition authRequired :: "env \<Rightarrow> string option \<Rightarrow> 'a response + nat" where
  "authRequired E authHeader =
     (case authHeader of
        None \<Rightarrow> Inl (Error 401 MissingAuthHeader)
      | Some h \<Rightarrow>
          if h = [] then Inl (Error 401 MissingAuthHeader)
          else (case drop 1 (split (CHR '' '') h) of
                  [] \<Rightarrow> Inl (Error 401 MissingToken)
                | token # _ \<Rightarrow>
                    if token = [] then Inl (Error 401 MissingToken)
                    else (case jwt_verify E token of
                            None \<Rightarrow> Inl (Error 401 InvalidToken)
                          | Some userId \<Rightarrow> Inr userId)))"

text \<open>A route \<open>app.METHOD(path, authRequired, handler)\<close>.\<close>

definition guarded ::
  "env \<Rightarrow> string option \<Rightarrow> 's \<Rightarrow> (nat \<Rightarrow> 'a response \<times> 's) \<Rightarrow> 'a response \<times> 's" where
  "guarded E authHeader db handler =
     (case authRequired E authHeader of
        Inl r \<Rightarrow> (r, db)
      | Inr userId \<Rightarrow> handler userId)"

subsection \<open>The login's inputs and lookup\<close>

text \<open>
  The password of a login request as the handler tests and uses it: \<open>Absent\<close> for a
  field that is not sent or holds a falsy value that is no string (\<open>null\<close>, \<open>false\<close>, 0),
  \<open>Text s\<close> for the string \<open>s\<close>, and \<open>NonString\<close> for a truthy value that is no string
  (a number, \<open>true\<close>, an array, an object).
\<close>

datatype field = Absent | Text string | NonString

definition field_falsy :: "field \<Rightarrow> bool" where
  "field_falsy v = (case v of Absent \<Rightarrow> True | Text s \<Rightarrow> s = [] | NonString \<Rightarrow> False)"

text \<open>
  \<open>bcrypt.compare(password, hash)\<close> on such a password that is truthy: \<open>None\<close> when it
  throws.
\<close>

definition compare_field :: "env \<Rightarrow> field \<Rightarrow> string \<Rightarrow> bool option" where
  "compare_field E v h =
     (case v of
        Text p \<Rightarrow> Some (bcrypt_compare E p h)
      | NonString \<Rightarrow> bcrypt_compare_nonstring E
      | Absent \<Rightarrow> bcrypt_compare_nonstring E)"

text \<open>
  A lookup that asks for one of the matching users and names no order
  (\<open>User.findOne({ $or: ... })\<close>, \<open>SELECT ... WHERE ... OR ... LIMIT 1\<close>): the storage
  chooses which of the matches it returns.
\<close>

definition choose_one :: "env \<Rightarrow> ('a \<Rightarrow> nat) \<Rightarrow> 'a list \<Rightarrow> 'a option" where
  "choose_one E ident ms =
     (case ms of
        [] \<Rightarrow> None
      | m # rest \<Rightarrow> Some (ms ! (storage_choice E (map ident ms) mod length ms)))"

subsection \<open>Pagination\<close>

text \<open>
  The result list of \<open>{page, limit, total, items}\<close>.
\<close>

record 'a listing =
  l_page :: jsnum
  l_limit :: jsnum
  l_total :: nat
  l_items :: "'a list"

text \<open>
  \<open>.skip(skip).limit(limit)\<close> and \<open>LIMIT limit OFFSET skip\<close> on the sorted results.
  With a skip of at least 0 and a limit of at least 1, both exact numbers, the storage
  drops \<open>skip\<close> results and keeps the next \<open>limit\<close>. Every other pair (a \<open>NaN\<close>, a
  negative number, a zero limit, a number too large to be exact) is passed on as it is,
  and what happens then is the storage's business: \<open>cursor_other\<close>.
\<close>

definition plain_range :: "jsnum \<Rightarrow> jsnum \<Rightarrow> (nat \<times> nat) option" where
  "plain_range skip limit =
     (case (skip, limit) of
        (Num s, Num l) \<Rightarrow>
          if 0 \<le> s \<and> s < 2 ^ 53 \<and> 0 < l \<and> l < 2 ^ 53 then Some (nat s, nat l) else None
      | _ \<Rightarrow> None)"

definition page_window :: "env \<Rightarrow> jsnum \<Rightarrow> jsnum \<Rightarrow> 'a list \<Rightarrow> 'a list option" where
  "page_window E skip limit xs =
     (case (case plain_range skip limit of
              Some w \<Rightarrow> Some w
            | None \<Rightarrow> cursor_other E skip limit (length xs)) of
        None \<Rightarrow> None
      | Some (s, l) \<Rightarrow> Some (take l (drop s xs)))"

section \<open>The MongoDB variant (server.js)\<close>

subsection \<open>Documents\<close>

text \<open>
  The three mongoose schemas, with the \<open>_id\<close> and the \<open>createdAt\<close> that mongoose adds
  (option \<open>timestamps\<close>). \<open>updatedAt\<close> is read by no handler and is left out. A
  collection is the list of its documents in insertion order.
\<close>

record user =
  u_id :: nat
  u_username :: string
  u_email :: string
  u_passwordHash :: string
  u_createdAt :: int

record photo =
  p_id :: nat
  p_owner :: nat
  p_url :: string
  p_caption :: "string option"
  p_likes :: "nat list"
  p_createdAt :: int

record comment =
  c_id :: nat
  c_photo :: nat
  c_author :: nat
  c_text :: string
  c_createdAt :: int

record mongo_db =
  User :: "user list"
  Photo :: "photo list"
  Comment :: "comment list"

definition mongo_empty :: mongo_db where
  "mongo_empty = \<lparr>User = [], Photo = [], Comment = []\<rparr>"

text \<open>The user summary of the register and login responses.\<close>

record user_summary =
  s_id :: nat
  s_username :: string
  s_email :: string

text \<open>What \<open>populate(path, "username email")\<close> puts in place of a user id.\<close>

definition populate :: "user list \<Rightarrow> nat \<Rightarrow> user_summary option" where
  "populate us uid =
     map_option (\<lambda>u. \<lparr>s_id = u_id u, s_username = u_username u, s_email = u_email u\<rparr>)
       (find (\<lambda>u. u_id u = uid) us)"

text \<open>\<open>Photo.findById(id)\<close>.\<close>

definition findById :: "photo list \<Rightarrow> nat \<Rightarrow> photo option" where
  "findById ps pid = find (\<lambda>p. p_id p = pid) ps"

text \<open>\<open>photo.save()\<close> of a document that was read from the collection.\<close>

fun save :: "photo \<Rightarrow> photo list \<Rightarrow> photo list" where
  "save d [] = []"
| "save d (p # ps) = (if p_id p = p_id d then d # ps else p # save d ps)"

subsection \<open>Handlers\<close>

text \<open>POST /auth/register\<close>

definition mongo_register ::
  "env \<Rightarrow> mongo_db \<Rightarrow> string option \<Rightarrow> string option \<Rightarrow> string option
     \<Rightarrow> (user_summary \<times> int) response \<times> mongo_db" where
  "mongo_register E db username email password =
     (case (username, email, password) of
        (Some un, Some em, Some pw) \<Rightarrow>
          if un = [] \<or> em = [] \<or> pw = [] then (Error 400 RegisterFieldsRequired, db)
          else (case find (\<lambda>u. u_email u = em \<or> u_username u = un) (User db) of
                  Some existingUser \<Rightarrow> (Error 409 UserAlreadyExists, db)
                | None \<Rightarrow>
                    let user = \<lparr>u_id = new_oid E, u_username = un, u_email = em,
                                u_passwordHash = bcrypt_hash E pw, u_createdAt = now E\<rparr>
                    in (Success 201
                          (\<lparr>s_id = u_id user, s_username = u_username user,
                            s_email = u_email user\<rparr>, u_createdAt user),
                        db\<lparr>User := User db @ [user]\<rparr>))
      | _ \<Rightarrow> (Error 400 RegisterFieldsRequired, db))"

text \<open>
  POST /auth/login. The store is only read. A \<open>bcrypt.compare\<close> that throws is caught
  by the handler's catch block.
\<close>

definition mongo_login ::
  "env \<Rightarrow> mongo_db \<Rightarrow> string option \<Rightarrow> field \<Rightarrow> (string \<times> user_summary) response" where
  "mongo_login E db emailOrUsername password =
     (case emailOrUsername of
        None \<Rightarrow> Error 400 LoginFieldsRequired
      | Some i \<Rightarrow>
          if i = [] \<or> field_falsy password then Error 400 LoginFieldsRequired
          else (case choose_one E u_id
                       (filter (\<lambda>u. u_email u = i \<or> u_username u = i) (User db)) of
                  None \<Rightarrow> Error 401 BadCredentials
                | Some user \<Rightarrow>
                    (case compare_field E password (u_passwordHash user) of
                       None \<Rightarrow> Error 500 ServerFault
                     | Some ok \<Rightarrow>
                         if \<not> ok then Error 401 BadCredentials
                         else Success 200
                                (jwt_sign E (u_id user),
                                 \<lparr>s_id = u_id user, s_username = u_username user,
                                  s_email = u_email user\<rparr>))))"

text \<open>
  POST /photos, after the guard and multer: \<open>file\<close> is the generated file name, \<open>None\<close>
  when the request carried no image.
\<close>

definition mongo_upload ::
  "env \<Rightarrow> mongo_db \<Rightarrow> string option \<Rightarrow> string option \<Rightarrow> nat \<Rightarrow> photo response \<times> mongo_db" where
  "mongo_upload E db file caption userId =
     (case file of
        None \<Rightarrow> (Error 400 MissingImageFile, db)
      | Some filename \<Rightarrow>
          let photo = \<lparr>p_id = new_oid E, p_owner = userId, p_url = ''/uploads/'' @ filename,
                       p_caption = caption, p_likes = [], p_createdAt = now E\<rparr>
          in (Success 201 photo, db\<lparr>Photo := Photo db @ [photo]\<rparr>))"

text \<open>
  GET /photos. The sort is newest first; documents with the same \<open>createdAt\<close> keep
  their insertion order here (the storage promises no order among them).
\<close>

definition mongo_list_photos ::
  "env \<Rightarrow> mongo_db \<Rightarrow> string option \<Rightarrow> string option
     \<Rightarrow> (photo \<times> user_summary option) listing response" where
  "mongo_list_photos E db page_q limit_q =
     (let page = parseInt (or_default page_q ''1'');
          limit = parseInt (or_default limit_q ''10'');
          skip = js_mul (js_sub page (Num 1)) limit
      in case page_window E skip limit (sort_key (\<lambda>p. - p_createdAt p) (Photo db)) of
           None \<Rightarrow> Error 500 ServerFault
         | Some found \<Rightarrow>
             Success 200
               \<lparr>l_page = page, l_limit = limit, l_total = length (Photo db),
                l_items = map (\<lambda>p. (p, populate (User db) (p_owner p))) found\<rparr>)"

text \<open>GET /photos/:id\<close>

definition mongo_get_photo :: "mongo_db \<Rightarrow> nat \<Rightarrow> (photo \<times> user_summary option) response" where
  "mongo_get_photo db pid =
     (case findById (Photo db) pid of
        None \<Rightarrow> Error 404 PhotoNotFound
      | Some photo \<Rightarrow> Success 200 (photo, populate (User db) (p_owner photo)))"

text \<open>POST /photos/:id/like, after the guard. The response is \<open>{ likesCount }\<close>.\<close>

definition mongo_like :: "mongo_db \<Rightarrow> nat \<Rightarrow> nat \<Rightarrow> nat response \<times> mongo_db" where
  "mongo_like db pid userId =
     (case findById (Photo db) pid of
        None \<Rightarrow> (Error 404 PhotoNotFound, db)
      | Some photo \<Rightarrow>
          let hasLiked = list_ex (\<lambda>u. u = userId) (p_likes photo)
          in if \<not> hasLiked
             then let photo' = photo\<lparr>p_likes := p_likes photo @ [userId]\<rparr>
                  in (Success 200 (length (p_likes photo')),
                      db\<lparr>Photo := save photo' (Photo db)\<rparr>)
             else (Success 200 (length (p_likes photo)), db))"

text \<open>DELETE /photos/:id/like, after the guard.\<close>

definition mongo_unlike :: "mongo_db \<Rightarrow> nat \<Rightarrow> nat \<Rightarrow> nat response \<times> mongo_db" where
  "mongo_unlike db pid userId =
     (case findById (Photo db) pid of
        None \<Rightarrow> (Error 404 PhotoNotFound, db)
      | Some photo \<Rightarrow>
          let photo' = photo\<lparr>p_likes := filter (\<lambda>u. u \<noteq> userId) (p_likes photo)\<rparr>
          in (Success 200 (length (p_likes photo')), db\<lparr>Photo := save photo' (Photo db)\<rparr>))"

text \<open>POST /photos/:id/comments, after the guard. The response is the created document.\<close>

definition mongo_create_comment ::
  "env \<Rightarrow> mongo_db \<Rightarrow> nat \<Rightarrow> string option \<Rightarrow> nat \<Rightarrow> comment response \<times> mongo_db" where
  "mongo_create_comment E db pid text_q userId =
     (case text_q of
        None \<Rightarrow> (Error 400 TextRequired, db)
      | Some txt \<Rightarrow>
          if txt = [] then (Error 400 TextRequired, db)
          else (case findById (Photo db) pid of
                  None \<Rightarrow> (Error 404 PhotoNotFound, db)
                | Some photo \<Rightarrow>
                    let comment = \<lparr>c_id = new_oid E, c_photo = p_id photo, c_author = userId,
                                   c_text = txt, c_createdAt = now E\<rparr>
                    in (Success 201 comment, db\<lparr>Comment := Comment db @ [comment]\<rparr>)))"

text \<open>GET /photos/:id/comments, oldest first.\<close>

definition mongo_list_comments :: "mongo_db \<Rightarrow> nat \<Rightarrow> (comment \<times> user_summary option) list response" where
  "mongo_list_comments db pid =
     Success 200
       (map (\<lambda>c. (c, populate (User db) (c_author c)))
          (sort_key c_createdAt (filter (\<lambda>c. c_photo c = pid) (Comment db))))"

section \<open>The MySQL variant (the second source file)\<close>

subsection \<open>Tables\<close>

text \<open>
  Modelled from the spec: the table declarations (the CREATE TABLE statements) are not
  in the source. The columns are the ones the handlers' statements name; \<open>id\<close> is an
  auto-increment key (the handlers read \<open>result.insertId\<close>), \<open>created_at\<close> is set by the
  database at insertion, and \<open>photo_likes\<close> holds join-table rows \<open>(photo_id, user_id)\<close>
  with a unique key on the pair (spec section 3, and the source's comment at its
  INSERT IGNORE). A table is the list of its rows in insertion order, with its next
  auto-increment value. String columns compare by equality.
\<close>

record users_row =
  users_id :: nat
  users_username :: string
  users_email :: string
  users_password_hash :: string

record photos_row =
  photos_id :: nat
  photos_owner_id :: nat
  photos_url :: string
  photos_caption :: "string option"
  photos_created_at :: int

record comments_row =
  comments_id :: nat
  comments_photo_id :: nat
  comments_author_id :: nat
  comments_text :: string
  comments_created_at :: int

record mysql_db =
  users :: "users_row list"
  photos :: "photos_row list"
  photo_likes :: "(nat \<times> nat) list"
  comments :: "comments_row list"
  users_auto :: nat
  photos_auto :: nat
  comments_auto :: nat

definition mysql_empty :: mysql_db where
  "mysql_empty = \<lparr>users = [], photos = [], photo_likes = [], comments = [],
                   users_auto = 1, photos_auto = 1, comments_auto = 1\<rparr>"

text \<open>The rows the SELECT statements return, with the column aliases of the source.\<close>

record photo_view =
  v_id :: nat
  v_url :: string
  v_caption :: "string option"
  v_createdAt :: int
  v_ownerId :: nat
  v_ownerUsername :: string
  v_ownerEmail :: string

record photo_item = photo_view +
  v_likesCount :: nat

record upload_view =
  w_id :: nat
  w_ownerId :: nat
  w_url :: string
  w_caption :: "string option"
  w_createdAt :: int

record comment_view =
  k_id :: nat
  k_text :: string
  k_createdAt :: int
  k_authorId :: nat
  k_authorUsername :: string
  k_authorEmail :: string

text \<open>\<open>SELECT COUNT(*) AS likesCount FROM photo_likes WHERE photo_id = ?\<close>\<close>

definition count_likes :: "mysql_db \<Rightarrow> nat \<Rightarrow> nat" where
  "count_likes db pid = length (filter (\<lambda>(p, u). p = pid) (photo_likes db))"

text \<open>
  \<open>INSERT IGNORE INTO photo_likes (photo_id, user_id) VALUES (?, ?)\<close>: a row that would
  repeat the unique key is dropped without an error.
\<close>

definition insert_ignore_like :: "mysql_db \<Rightarrow> nat \<Rightarrow> nat \<Rightarrow> mysql_db" where
  "insert_ignore_like db pid uid =
     (if (pid, uid) \<in> set (photo_likes db) then db
      else db\<lparr>photo_likes := photo_likes db @ [(pid, uid)]\<rparr>)"

text \<open>\<open>DELETE FROM photo_likes WHERE photo_id = ? AND user_id = ?\<close>\<close>

definition delete_like :: "mysql_db \<Rightarrow> nat \<Rightarrow> nat \<Rightarrow> mysql_db" where
  "delete_like db pid uid =
     db\<lparr>photo_likes := filter (\<lambda>(p, u). \<not> (p = pid \<and> u = uid)) (photo_likes db)\<rparr>"

text \<open>\<open>FROM photos p JOIN users u ON u.id = p.owner_id\<close>, with the list's columns.\<close>

definition photos_join_users :: "mysql_db \<Rightarrow> photo_item list" where
  "photos_join_users db =
     concat (map (\<lambda>p. map (\<lambda>u. \<lparr>v_id = photos_id p, v_url = photos_url p,
                                 v_caption = photos_caption p,
                                 v_createdAt = photos_created_at p,
                                 v_ownerId = users_id u, v_ownerUsername = users_username u,
                                 v_ownerEmail = users_email u,
                                 v_likesCount = count_likes db (photos_id p)\<rparr>)
                        (filter (\<lambda>u. users_id u = photos_owner_id p) (users db)))
                 (photos db))"

text \<open>\<open>FROM comments c JOIN users u ON u.id = c.author_id\<close>\<close>

definition comments_join_users :: "mysql_db \<Rightarrow> comments_row list \<Rightarrow> comment_view list" where
  "comments_join_users db cs =
     concat (map (\<lambda>c. map (\<lambda>u. \<lparr>k_id = comments_id c, k_text = comments_text c,
                                 k_createdAt = comments_created_at c,
                                 k_authorId = users_id u,
                                 k_authorUsername = users_username u,
                                 k_authorEmail = users_email u\<rparr>)
                        (filter (\<lambda>u. users_id u = comments_author_id c) (users db)))
                 cs)"

subsection \<open>Handlers\<close>

text \<open>POST /auth/register. The response's \<open>createdAt\<close> is \<open>new Date()\<close>.\<close>

definition mysql_register ::
  "env \<Rightarrow> mysql_db \<Rightarrow> string option \<Rightarrow> string option \<Rightarrow> string option
     \<Rightarrow> (user_summary \<times> int) response \<times> mysql_db" where
  "mysql_register E db username email password =
     (case (username, email, password) of
        (Some un, Some em, Some pw) \<Rightarrow>
          if un = [] \<or> em = [] \<or> pw = [] then (Error 400 RegisterFieldsRequired, db)
          else
            let existing = filter (\<lambda>u. users_email u = em \<or> users_username u = un) (users db)
            in if length existing > 0 then (Error 409 UserAlreadyExists, db)
               else
                 let userId = users_auto db;
                     row = \<lparr>users_id = userId, users_username = un, users_email = em,
                            users_password_hash = bcrypt_hash E pw\<rparr>
                 in (Success 201 (\<lparr>s_id = userId, s_username = un, s_email = em\<rparr>, now E),
                     db\<lparr>users := users db @ [row], users_auto := Suc (users_auto db)\<rparr>)
      | _ \<Rightarrow> (Error 400 RegisterFieldsRequired, db))"

text \<open>
  POST /auth/login. \<open>LIMIT 1\<close> keeps one matching row, and the statement has no
  ORDER BY: \<open>rows\<close> is empty or holds the row the storage chose.
\<close>

definition mysql_login ::
  "env \<Rightarrow> mysql_db \<Rightarrow> string option \<Rightarrow> field \<Rightarrow> (string \<times> user_summary) response" where
  "mysql_login E db emailOrUsername password =
     (case emailOrUsername of
        None \<Rightarrow> Error 400 LoginFieldsRequired
      | Some i \<Rightarrow>
          if i = [] \<or> field_falsy password then Error 400 LoginFieldsRequired
          else (case choose_one E users_id
                       (filter (\<lambda>u. users_email u = i \<or> users_username u = i) (users db)) of
                  None \<Rightarrow> Error 401 BadCredentials
                | Some user \<Rightarrow>
                    (case compare_field E password (users_password_hash user) of
                       None \<Rightarrow> Error 500 ServerFault
                     | Some ok \<Rightarrow>
                         if \<not> ok then Error 401 BadCredentials
                         else Success 200
                                (jwt_sign E (users_id user),
                                 \<lparr>s_id = users_id user, s_username = users_username user,
                                  s_email = users_email user\<rparr>))))"

text \<open>
  POST /photos, after the guard and multer. The body is \<open>rows[0]\<close> of the SELECT that
  follows the INSERT (\<open>None\<close> for \<open>undefined\<close>).
\<close>

definition mysql_upload ::
  "env \<Rightarrow> mysql_db \<Rightarrow> string option \<Rightarrow> string option \<Rightarrow> nat
     \<Rightarrow> upload_view option response \<times> mysql_db" where
  "mysql_upload E db file caption userId =
     (case file of
        None \<Rightarrow> (Error 400 MissingImageFile, db)
      | Some filename \<Rightarrow>
          let photoId = photos_auto db;
              row = \<lparr>photos_id = photoId, photos_owner_id = userId,
                     photos_url = ''/uploads/'' @ filename,
                     photos_caption = (if falsy caption then None else caption),
                     photos_created_at = now E\<rparr>;
              db' = db\<lparr>photos := photos db @ [row], photos_auto := Suc (photos_auto db)\<rparr>;
              rows = map (\<lambda>p. \<lparr>w_id = photos_id p, w_ownerId = photos_owner_id p,
                                w_url = photos_url p, w_caption = photos_caption p,
                                w_createdAt = photos_created_at p\<rparr>)
                       (filter (\<lambda>p. photos_id p = photoId) (photos db'))
          in (Success 201 (case rows of [] \<Rightarrow> None | r # _ \<Rightarrow> Some r), db'))"

text \<open>
  GET /photos. Rows with the same \<open>created_at\<close> keep their insertion order here (the
  statement promises no order among them).
\<close>

definition mysql_list_photos ::
  "env \<Rightarrow> mysql_db \<Rightarrow> string option \<Rightarrow> string option \<Rightarrow> photo_item listing response" where
  "mysql_list_photos E db page_q limit_q =
     (let page = parseInt (or_default page_q ''1'');
          limit = parseInt (or_default limit_q ''10'');
          offset = js_mul (js_sub page (Num 1)) limit
      in case page_window E offset limit
                (sort_key (\<lambda>r. - v_createdAt r) (photos_join_users db)) of
           None \<Rightarrow> Error 500 ServerFault
         | Some found \<Rightarrow>
             Success 200
               \<lparr>l_page = page, l_limit = limit, l_total = length (photos db),
                l_items = found\<rparr>)"

text \<open>GET /photos/:id\<close>

definition mysql_get_photo :: "mysql_db \<Rightarrow> nat \<Rightarrow> photo_view response" where
  "mysql_get_photo db pid =
     (case filter (\<lambda>r. v_id r = pid) (photos_join_users db) of
        [] \<Rightarrow> Error 404 PhotoNotFound
      | r # _ \<Rightarrow> Success 200 (photo_view.truncate r))"

text \<open>POST /photos/:id/like, after the guard.\<close>

definition mysql_like :: "mysql_db \<Rightarrow> nat \<Rightarrow> nat \<Rightarrow> nat response \<times> mysql_db" where
  "mysql_like db pid userId =
     (let photoRows = filter (\<lambda>p. photos_id p = pid) (photos db)
      in if length photoRows = 0 then (Error 404 PhotoNotFound, db)
         else let db' = insert_ignore_like db pid userId
              in (Success 200 (count_likes db' pid), db'))"

text \<open>DELETE /photos/:id/like, after the guard.\<close>

definition mysql_unlike :: "mysql_db \<Rightarrow> nat \<Rightarrow> nat \<Rightarrow> nat response \<times> mysql_db" where
  "mysql_unlike db pid userId =
     (let db' = delete_like db pid userId
      in (Success 200 (count_likes db' pid), db'))"

text \<open>
  POST /photos/:id/comments, after the guard. The body is \<open>rows[0]\<close> of the SELECT that
  follows the INSERT (\<open>None\<close> for \<open>undefined\<close>).
\<close>

definition mysql_create_comment ::
  "env \<Rightarrow> mysql_db \<Rightarrow> nat \<Rightarrow> string option \<Rightarrow> nat
     \<Rightarrow> comment_view option response \<times> mysql_db" where
  "mysql_create_comment E db pid text_q userId =
     (case text_q of
        None \<Rightarrow> (Error 400 TextRequired, db)
      | Some txt \<Rightarrow>
          if txt = [] then (Error 400 TextRequired, db)
          else
            let photoRows = filter (\<lambda>p. photos_id p = pid) (photos db)
            in if length photoRows = 0 then (Error 404 PhotoNotFound, db)
               else
                 let commentId = comments_auto db;
                     row = \<lparr>comments_id = commentId, comments_photo_id = pid,
                            comments_author_id = userId, comments_text = txt,
                            comments_created_at = now E\<rparr>;
                     db' = db\<lparr>comments := comments db @ [row],
                              comments_auto := Suc (comments_auto db)\<rparr>;
                     rows = comments_join_users db'
                              (filter (\<lambda>c. comments_id c = commentId) (comments db'))
                 in (Success 201 (case rows of [] \<Rightarrow> None | r # _ \<Rightarrow> Some r), db'))"

text \<open>GET /photos/:id/comments, oldest first.\<close>

definition mysql_list_comments :: "mysql_db \<Rightarrow> nat \<Rightarrow> comment_view list response" where
  "mysql_list_comments db pid =
     Success 200
       (sort_key k_createdAt
          (comments_join_users db (filter (\<lambda>c. comments_photo_id c = pid) (comments db))))"

section \<open>Routes and runs\<close>

text \<open>The guarded routes: \<open>authRequired\<close>, then the handler with \<open>req.userId\<close>.\<close>

definition mongo_upload_route ::
  "env \<Rightarrow> mongo_db \<Rightarrow> string option \<Rightarrow> string option \<Rightarrow> string option
     \<Rightarrow> photo response \<times> mongo_db" where
  "mongo_upload_route E db authHeader file caption =
     guarded E authHeader db (mongo_upload E db file caption)"

definition mongo_like_route ::
  "env \<Rightarrow> mongo_db \<Rightarrow> string option \<Rightarrow> nat \<Rightarrow> nat response \<times> mongo_db" where
  "mongo_like_route E db authHeader pid = guarded E authHeader db (mongo_like db pid)"

definition mongo_unlike_route ::
  "env \<Rightarrow> mongo_db \<Rightarrow> string option \<Rightarrow> nat \<Rightarrow> nat response \<times> mongo_db" where
  "mongo_unlike_route E db authHeader pid = guarded E authHeader db (mongo_unlike db pid)"

definition mongo_create_comment_route ::
  "env \<Rightarrow> mongo_db \<Rightarrow> string option \<Rightarrow> nat \<Rightarrow> string option
     \<Rightarrow> comment response \<times> mongo_db" where
  "mongo_create_comment_route E db authHeader pid text_q =
     guarded E authHeader db (mongo_create_comment E db pid text_q)"

definition mysql_upload_route ::
  "env \<Rightarrow> mysql_db \<Rightarrow> string option \<Rightarrow> string option \<Rightarrow> string option
     \<Rightarrow> upload_view option response \<times> mysql_db" where
  "mysql_upload_route E db authHeader file caption =
     guarded E authHeader db (mysql_upload E db file caption)"

definition mysql_like_route ::
  "env \<Rightarrow> mysql_db \<Rightarrow> string option \<Rightarrow> nat \<Rightarrow> nat response \<times> mysql_db" where
  "mysql_like_route E db authHeader pid = guarded E authHeader db (mysql_like db pid)"

definition mysql_unlike_route ::
  "env \<Rightarrow> mysql_db \<Rightarrow> string option \<Rightarrow> nat \<Rightarrow> nat response \<times> mysql_db" where
  "mysql_unlike_route E db authHeader pid = guarded E authHeader db (mysql_unlike db pid)"

definition mysql_create_comment_route ::
  "env \<Rightarrow> mysql_db \<Rightarrow> string option \<Rightarrow> nat \<Rightarrow> string option
     \<Rightarrow> comment_view option response \<times> mysql_db" where
  "mysql_create_comment_route E db authHeader pid text_q =
     guarded E authHeader db (mysql_create_comment E db pid text_q)"

text \<open>
  A request to the API, with the inputs its route reads: the Authorization header first
  where the route is guarded.
\<close>

datatype request =
    Register "string option" "string option" "string option"
  | Login "string option" field
  | UploadPhoto "string option" "string option" "string option"
  | ListPhotos "string option" "string option"
  | GetPhoto nat
  | LikePhoto "string option" nat
  | UnlikePhoto "string option" nat
  | CreateComment "string option" nat "string option"
  | ListComments nat

text \<open>
  The store after one request. The four GET routes and the login only read it. Each
  request is served under its own environment: the clock and the set of valid tokens
  change between requests.
\<close>

fun mongo_step :: "mongo_db \<Rightarrow> env \<times> request \<Rightarrow> mongo_db" where
  "mongo_step db (E, Register un em pw) = snd (mongo_register E db un em pw)"
| "mongo_step db (E, Login i pw) = db"
| "mongo_step db (E, UploadPhoto h file caption) = snd (mongo_upload_route E db h file caption)"
| "mongo_step db (E, ListPhotos page_q limit_q) = db"
| "mongo_step db (E, GetPhoto pid) = db"
| "mongo_step db (E, LikePhoto h pid) = snd (mongo_like_route E db h pid)"
| "mongo_step db (E, UnlikePhoto h pid) = snd (mongo_unlike_route E db h pid)"
| "mongo_step db (E, CreateComment h pid text_q) =
     snd (mongo_create_comment_route E db h pid text_q)"
| "mongo_step db (E, ListComments pid) = db"

fun mysql_step :: "mysql_db \<Rightarrow> env \<times> request \<Rightarrow> mysql_db" where
  "mysql_step db (E, Register un em pw) = snd (mysql_register E db un em pw)"
| "mysql_step db (E, Login i pw) = db"
| "mysql_step db (E, UploadPhoto h file caption) = snd (mysql_upload_route E db h file caption)"
| "mysql_step db (E, ListPhotos page_q limit_q) = db"
| "mysql_step db (E, GetPhoto pid) = db"
| "mysql_step db (E, LikePhoto h pid) = snd (mysql_like_route E db h pid)"
| "mysql_step db (E, UnlikePhoto h pid) = snd (mysql_unlike_route E db h pid)"
| "mysql_step db (E, CreateComment h pid text_q) =
     snd (mysql_create_comment_route E db h pid text_q)"
| "mysql_step db (E, ListComments pid) = db"

text \<open>The store after a sequence of requests, served one after the other.\<close>

definition mongo_run :: "mongo_db \<Rightarrow> (env \<times> request) list \<Rightarrow> mongo_db" where
  "mongo_run db rqs = foldl mongo_step db rqs"

definition mysql_run :: "mysql_db \<Rightarrow> (env \<times> request) list \<Rightarrow> mysql_db" where
  "mysql_run db rqs = foldl mysql_step db rqs"

section \<open>Notions the properties are stated with\<close>

text \<open>
  A photo's like count in the MongoDB variant is the length of its \<open>likes\<close> array
  (\<open>photo.likes.length\<close>); \<open>None\<close> when no photo has the id.
\<close>

definition mongo_likesCount :: "mongo_db \<Rightarrow> nat \<Rightarrow> nat option" where
  "mongo_likesCount db pid = map_option (\<lambda>p. length (p_likes p)) (findById (Photo db) pid)"

text \<open>
  At most one like per pair of user and photo: no user id twice in a photo's \<open>likes\<close>
  array, no row twice in \<open>photo_likes\<close>.
\<close>

definition mongo_likes_unique :: "mongo_db \<Rightarrow> bool" where
  "mongo_likes_unique db = list_all (\<lambda>p. distinct (p_likes p)) (Photo db)"

definition mysql_likes_unique :: "mysql_db \<Rightarrow> bool" where
  "mysql_likes_unique db = distinct (photo_likes db)"

text \<open>
  The parts of a header in the words of the claim about the guard: the maximal runs of
  characters that are not white space.
\<close>

fun parts_at :: "(char \<Rightarrow> bool) \<Rightarrow> string \<Rightarrow> string list" where
  "parts_at sep [] = [[]]"
| "parts_at sep (c # cs) =
     (if sep c then [] # parts_at sep cs
      else (case parts_at sep cs of [] \<Rightarrow> [[c]] | p # ps \<Rightarrow> (c # p) # ps))"

definition whitespace_separated_parts :: "string \<Rightarrow> string list" where
  "whitespace_separated_parts s = filter (\<lambda>p. p \<noteq> []) (parts_at is_space s)"

text \<open>
  A list is ordered newest first by creation time when no element is followed by one
  created later. Elements created at the same time may come in either order.
\<close>

definition newest_first :: "('a \<Rightarrow> int) \<Rightarrow> 'a list \<Rightarrow> bool" where
  "newest_first created xs = sorted_wrt (\<lambda>a b. created b \<le> created a) xs"

text \<open>The row of \<open>photos\<close> that a row of the photo list was made from.\<close>

definition item_photo :: "photo_item \<Rightarrow> photos_row" where
  "item_photo r =
     \<lparr>photos_id = v_id r, photos_owner_id = v_ownerId r, photos_url = v_url r,
      photos_caption = v_caption r, photos_created_at = v_createdAt r\<rparr>"

text \<open>
  Every photo's owner is one row of \<open>users\<close>: what the join of the photo list needs to
  return one row per photo.
\<close>

definition owners_present :: "mysql_db \<Rightarrow> bool" where
  "owners_present db =
     list_all (\<lambda>p. length (filter (\<lambda>u. users_id u = photos_owner_id p) (users db)) = 1)
       (photos db)"

text \<open>The status and the body of a response, for reading off single fields.\<close>

fun status_of :: "'a response \<Rightarrow> nat" where
  "status_of (Error c m) = c"
| "status_of (Success c x) = c"

fun body_of :: "'a response \<Rightarrow> 'a option" where
  "body_of (Error c m) = None"
| "body_of (Success c x) = Some x"

section \<open>Sample data\<close>

text \<open>
  An environment for evaluating the handlers on concrete requests: the token of user
  \<open>n\<close> is \<open>n + 1\<close> letters \<open>t\<close>, the hash of a password is the password behind a \<open>#\<close>,
  \<open>bcrypt.compare\<close> throws on what is not a string, a lookup without an order returns
  the match inserted first, and the storage rejects every skip and limit outside the
  plain range.
\<close>

definition sample_env :: env where
  "sample_env =
     \<lparr>jwt_verify = (\<lambda>t. if t \<noteq> [] \<and> list_all (\<lambda>c. c = CHR ''t'') t
                          then Some (length t - 1) else None),
      jwt_sign = (\<lambda>n. replicate (Suc n) (CHR ''t'')),
      bcrypt_hash = (\<lambda>p. CHR ''#'' # p),
      bcrypt_compare = (\<lambda>p h. h = CHR ''#'' # p),
      bcrypt_compare_nonstring = None,
      storage_choice = (\<lambda>ids. 0),
      cursor_other = (\<lambda>skip limit n. None),
      new_oid = 1,
      now = 1000\<rparr>"

text \<open>Two small stores: one user, and one photo of hers that nobody likes yet.\<close>

definition sample_photo :: photo where
  "sample_photo =
     \<lparr>p_id = 10, p_owner = 7, p_url = ''/uploads/image-1.png'', p_caption = None,
      p_likes = [], p_createdAt = 600\<rparr>"

definition sample_mongo :: mongo_db where
  "sample_mongo =
     \<lparr>User = [\<lparr>u_id = 7, u_username = ''alice'', u_email = ''a@x.com'',
               u_passwordHash = ''#pw123'', u_createdAt = 500\<rparr>],
      Photo = [sample_photo],
      Comment = []\<rparr>"

definition sample_mysql :: mysql_db where
  "sample_mysql =
     \<lparr>users = [\<lparr>users_id = 1, users_username = ''alice'', users_email = ''a@x.com'',
                users_password_hash = ''#pw123''\<rparr>],
      photos = [\<lparr>photos_id = 1, photos_owner_id = 1, photos_url = ''/uploads/image-1.png'',
                 photos_caption = None, photos_created_at = 600\<rparr>],
      photo_likes = [],
      comments = [],
      users_auto = 2, photos_auto = 2, comments_auto = 1\<rparr>"

text \<open>
  A short session: alice registers, uploads a photo (which gets the id \<open>pid\<close>) and
  likes it twice.
\<close>

definition sample_requests :: "nat \<Rightarrow> (env \<times> request) list" where
  "sample_requests pid =
     [(sample_env, Register (Some ''alice'') (Some ''a@x.com'') (Some ''pw123'')),
      (sample_env\<lparr>new_oid := pid, now := 2000\<rparr>,
         UploadPhoto (Some ''Bearer tt'') (Some ''image-1.png'') None),
      (sample_env, LikePhoto (Some ''Bearer tt'') pid),
      (sample_env, LikePhoto (Some ''Bearer tt'') pid)]"

text \<open>
  Two registrations that both succeed: the first user's username is the text of the
  second user's email.
\<close>

definition overlap_requests :: "(env \<times> request) list" where
  "overlap_requests =
     [(sample_env, Register (Some ''x@y.com'') (Some ''a@b.com'') (Some ''pwA'')),
      (sample_env\<lparr>new_oid := 2\<rparr>, Register (Some ''bob'') (Some ''x@y.com'') (Some ''pwB''))]"

text \<open>Two stores with twelve photos of alice, photo \<open>n\<close> created at time \<open>100 * n\<close>.\<close>

definition sample_gallery :: mongo_db where
  "sample_gallery =
     sample_mongo\<lparr>Photo :=
       map (\<lambda>n. \<lparr>p_id = n, p_owner = 7, p_url = ''/uploads/image.png'', p_caption = None,
                  p_likes = [], p_createdAt = 100 * int n\<rparr>)
         [1, 2, 3, 4, 5, 6, 7, 8, 9, 10, 11, 12]\<rparr>"

definition sample_gallery_mysql :: mysql_db where
  "sample_gallery_mysql =
     sample_mysql\<lparr>photos :=
       map (\<lambda>n. \<lparr>photos_id = n, photos_owner_id = 1, photos_url = ''/uploads/image.png'',
                  photos_caption = None, photos_created_at = 100 * int n\<rparr>)
         [1, 2, 3, 4, 5, 6, 7, 8, 9, 10, 11, 12],
       photos_auto := 13\<rparr>"

text \<open>
  The sample environment over a storage that, instead of rejecting a skip or limit
  outside the plain range, drops no result and keeps ten.
\<close>

definition lenient_env :: env where
  "lenient_env = sample_env\<lparr>cursor_other := (\<lambda>skip limit n. Some (0, 10))\<rparr>"

text \<open>The sample environment over a storage whose lookups return the last match.\<close>

definition last_match_env :: env where
  "last_match_env = sample_env\<lparr>storage_choice := (\<lambda>ids. length ids - 1)\<rparr>"

text \<open>
  The two small stores with a second photo, which two users like (and, in the MySQL
  store, a third that one user likes).
\<close>

definition sample_mongo_liked :: mongo_db where
  "sample_mongo_liked =
     sample_mongo\<lparr>Photo :=
       [sample_photo,
        \<lparr>p_id = 11, p_owner = 7, p_url = ''/uploads/image-2.png'', p_caption = None,
         p_likes = [7, 8], p_createdAt = 700\<rparr>]\<rparr>"

definition sample_mysql_liked :: mysql_db where
  "sample_mysql_liked =
     sample_mysql\<lparr>photos :=
       photos sample_mysql @
       [\<lparr>photos_id = 2, photos_owner_id = 1, photos_url = ''/uploads/image-2.png'',
         photos_caption = None, photos_created_at = 700\<rparr>,
        \<lparr>photos_id = 3, photos_owner_id = 1, photos_url = ''/uploads/image-3.png'',
         photos_caption = None, photos_created_at = 800\<rparr>],
       photo_likes := [(2, 1), (2, 5), (3, 1)],
       photos_auto := 4\<rparr>"

section \<open>Properties\<close>

subsection \<open>Liking and unliking\<close>

lemma findById_id: "findById ps pid = Some ph \<Longrightarrow> p_id ph = pid"
  unfolding findById_def by (induction ps) (auto split: if_splits)

lemma findById_save:
  "findById ps pid = Some ph \<Longrightarrow> p_id d = pid \<Longrightarrow> findById (save d ps) pid = Some d"
  unfolding findById_def by (induction ps) (auto split: if_splits)


lemma mongo_like_found:
  assumes "findById (Photo db) pid = Some ph"
  shows "mongo_like db pid uid =
           (if uid \<in> set (p_likes ph) then (Success 200 (length (p_likes ph)), db)
            else (Success 200 (Suc (length (p_likes ph))),
                  db\<lparr>Photo := save (ph\<lparr>p_likes := p_likes ph @ [uid]\<rparr>) (Photo db)\<rparr>))"
  using assms by (simp add: mongo_like_def list_ex_iff Let_def)

lemma mongo_like_again:
  assumes "findById (Photo db) pid = Some ph"
  shows "mongo_like (snd (mongo_like db pid uid)) pid uid =
           (fst (mongo_like db pid uid), snd (mongo_like db pid uid))"
proof (cases "uid \<in> set (p_likes ph)")
  case True
  then show ?thesis using assms by (simp add: mongo_like_found)
next
  case False
  let ?ph' = "ph\<lparr>p_likes := p_likes ph @ [uid]\<rparr>"
  let ?db' = "db\<lparr>Photo := save ?ph' (Photo db)\<rparr>"
  have id: "p_id ?ph' = pid" using findById_id[OF assms] by simp
  have f: "findById (Photo ?db') pid = Some ?ph'"
    using findById_save[OF assms id] by simp
  have first: "mongo_like db pid uid = (Success 200 (Suc (length (p_likes ph))), ?db')"
    using False assms by (simp add: mongo_like_found)
  have "mongo_like ?db' pid uid = (Success 200 (length (p_likes ?ph')), ?db')"
    using mongo_like_found[OF f, of uid] by simp
  then show ?thesis using first by simp
qed

lemma insert_ignore_like_idem:
  "insert_ignore_like (insert_ignore_like db pid uid) pid uid = insert_ignore_like db pid uid"
  by (simp add: insert_ignore_like_def)

lemma photos_insert_ignore [simp]: "photos (insert_ignore_like db pid uid) = photos db"
  by (simp add: insert_ignore_like_def)

lemma likes_of_photo_insert_ignore:
  "filter (\<lambda>(p, u). p = pid) (photo_likes (insert_ignore_like db pid uid)) =
     (if (pid, uid) \<in> set (photo_likes db) then filter (\<lambda>(p, u). p = pid) (photo_likes db)
      else filter (\<lambda>(p, u). p = pid) (photo_likes db) @ [(pid, uid)])"
  by (simp add: insert_ignore_like_def)

lemma mysql_like_found:
  assumes "filter (\<lambda>p. photos_id p = pid) (photos db) \<noteq> []"
  shows "mysql_like db pid uid =
           (Success 200
              (length (filter (\<lambda>(p, u). p = pid) (photo_likes (insert_ignore_like db pid uid)))),
            insert_ignore_like db pid uid)"
  using assms by (simp add: mysql_like_def Let_def count_likes_def)

text \<open>
  C1. When the photo is in the store, a second like of the same photo by the same user
  returns the same response as the first and leaves the store as the first left it.
  The count in the response is the number of likes the photo has in the store: the
  length of its \<open>likes\<close> array, the number of \<open>photo_likes\<close> rows with its id. For a
  photo without likes, the second like answers 1, and the photo then has the one like
  of that user, whatever likes other photos have. This holds in both variants.
\<close>

theorem like_twice_same_as_once:
  "(findById (Photo db) pid = Some ph \<longrightarrow>
      mongo_like (snd (mongo_like db pid uid)) pid uid = mongo_like db pid uid \<and>
      (\<exists>n. fst (mongo_like db pid uid) = Success 200 n \<and>
           mongo_likesCount (snd (mongo_like db pid uid)) pid = Some n) \<and>
      (p_likes ph = [] \<longrightarrow>
         fst (mongo_like (snd (mongo_like db pid uid)) pid uid) = Success 200 1 \<and>
         mongo_likesCount (snd (mongo_like (snd (mongo_like db pid uid)) pid uid)) pid = Some 1 \<and>
         map_option p_likes
           (findById (Photo (snd (mongo_like (snd (mongo_like db pid uid)) pid uid))) pid)
           = Some [uid]))
   \<and>
   (filter (\<lambda>p. photos_id p = rid) (photos rdb) \<noteq> [] \<longrightarrow>
      mysql_like (snd (mysql_like rdb rid ruid)) rid ruid = mysql_like rdb rid ruid \<and>
      fst (mysql_like rdb rid ruid) =
        Success 200
          (length (filter (\<lambda>(p, u). p = rid) (photo_likes (snd (mysql_like rdb rid ruid))))) \<and>
      ((\<forall>u. (rid, u) \<notin> set (photo_likes rdb)) \<longrightarrow>
         fst (mysql_like (snd (mysql_like rdb rid ruid)) rid ruid) = Success 200 1 \<and>
         filter (\<lambda>(p, u). p = rid)
           (photo_likes (snd (mysql_like (snd (mysql_like rdb rid ruid)) rid ruid)))
           = [(rid, ruid)] \<and>
         filter (\<lambda>(p, u). p \<noteq> rid)
           (photo_likes (snd (mysql_like (snd (mysql_like rdb rid ruid)) rid ruid)))
           = filter (\<lambda>(p, u). p \<noteq> rid) (photo_likes rdb)))"
proof (intro conjI impI)
  assume f: "findById (Photo db) pid = Some ph"
  show again: "mongo_like (snd (mongo_like db pid uid)) pid uid = mongo_like db pid uid"
    using mongo_like_again[OF f] by simp
  have id: "p_id (ph\<lparr>p_likes := p_likes ph @ [uid]\<rparr>) = pid" using findById_id[OF f] by simp
  show "\<exists>n. fst (mongo_like db pid uid) = Success 200 n \<and>
           mongo_likesCount (snd (mongo_like db pid uid)) pid = Some n"
    using f findById_save[OF f id]
    by (simp add: mongo_like_found[OF f] mongo_likesCount_def)
  assume e: "p_likes ph = []"
  show "fst (mongo_like (snd (mongo_like db pid uid)) pid uid) = Success 200 1"
    unfolding again using e by (simp add: mongo_like_found[OF f])
  show "mongo_likesCount (snd (mongo_like (snd (mongo_like db pid uid)) pid uid)) pid = Some 1"
    unfolding again using e findById_save[OF f id]
    by (simp add: mongo_like_found[OF f] mongo_likesCount_def)
  show "map_option p_likes
           (findById (Photo (snd (mongo_like (snd (mongo_like db pid uid)) pid uid))) pid)
           = Some [uid]"
    unfolding again using e findById_save[OF f id]
    by (simp add: mongo_like_found[OF f])
next
  assume p: "filter (\<lambda>p. photos_id p = rid) (photos rdb) \<noteq> []"
  show again: "mysql_like (snd (mysql_like rdb rid ruid)) rid ruid = mysql_like rdb rid ruid"
    using p by (simp add: mysql_like_def Let_def insert_ignore_like_idem)
  show "fst (mysql_like rdb rid ruid) =
        Success 200
          (length (filter (\<lambda>(p, u). p = rid) (photo_likes (snd (mysql_like rdb rid ruid)))))"
    by (simp add: mysql_like_found[OF p])
  assume z: "\<forall>u. (rid, u) \<notin> set (photo_likes rdb)"
  then have none: "filter (\<lambda>(p, u). p = rid) (photo_likes rdb) = []"
    by (auto simp: filter_empty_conv)
  have nin: "(rid, ruid) \<notin> set (photo_likes rdb)" using z by simp
  show "fst (mysql_like (snd (mysql_like rdb rid ruid)) rid ruid) = Success 200 1"
    unfolding again
    by (simp add: mysql_like_found[OF p] likes_of_photo_insert_ignore none nin)
  show "filter (\<lambda>(p, u). p = rid)
           (photo_likes (snd (mysql_like (snd (mysql_like rdb rid ruid)) rid ruid)))
           = [(rid, ruid)]"
    unfolding again
    by (simp add: mysql_like_found[OF p] likes_of_photo_insert_ignore none nin)
  show "filter (\<lambda>(p, u). p \<noteq> rid)
           (photo_likes (snd (mysql_like (snd (mysql_like rdb rid ruid)) rid ruid)))
           = filter (\<lambda>(p, u). p \<noteq> rid) (photo_likes rdb)"
    unfolding again
    by (simp add: mysql_like_found[OF p] insert_ignore_like_def nin)
qed

theorem like_twice_same_as_once_witness:
  "findById (Photo sample_mongo_liked) 10 = Some sample_photo \<and>
   p_likes sample_photo = [] \<and>
   mongo_like (snd (mongo_like sample_mongo_liked 10 7)) 10 7 = mongo_like sample_mongo_liked 10 7 \<and>
   fst (mongo_like (snd (mongo_like sample_mongo_liked 10 7)) 10 7) = Success 200 1 \<and>
   map p_likes (Photo (snd (mongo_like (snd (mongo_like sample_mongo_liked 10 7)) 10 7)))
     = [[7], [7, 8]] \<and>
   filter (\<lambda>p. photos_id p = 1) (photos sample_mysql_liked) \<noteq> [] \<and>
   photo_likes sample_mysql_liked = [(2, 1), (2, 5), (3, 1)] \<and>
   mysql_like (snd (mysql_like sample_mysql_liked 1 1)) 1 1 = mysql_like sample_mysql_liked 1 1 \<and>
   fst (mysql_like (snd (mysql_like sample_mysql_liked 1 1)) 1 1) = Success 200 1 \<and>
   photo_likes (snd (mysql_like (snd (mysql_like sample_mysql_liked 1 1)) 1 1))
     = [(2, 1), (2, 5), (3, 1), (1, 1)] \<and>
   fst (mysql_like sample_mysql_liked 2 7) = Success 200 3"
proof -
  have h1: "findById (Photo sample_mongo_liked) 10 = Some sample_photo"
    by (simp add: sample_mongo_liked_def sample_mongo_def sample_photo_def findById_def)
  have h2: "p_likes sample_photo = []"
    by (simp add: sample_photo_def)
  have h3: "filter (\<lambda>p. photos_id p = 1) (photos sample_mysql_liked) \<noteq> []"
    by (simp add: sample_mysql_liked_def sample_mysql_def)
  have h4: "\<forall>u. (1, u) \<notin> set (photo_likes sample_mysql_liked)"
    "photo_likes sample_mysql_liked = [(2, 1), (2, 5), (3, 1)]"
    by (simp_all add: sample_mysql_liked_def sample_mysql_def)
  have m: "map p_likes (Photo (snd (mongo_like sample_mongo_liked 10 7))) = [[7], [7, 8]]"
    by (simp add: mongo_like_def sample_mongo_liked_def sample_mongo_def sample_photo_def
        findById_def Let_def)
  have r: "photo_likes (snd (mysql_like sample_mysql_liked 1 1)) = [(2, 1), (2, 5), (3, 1), (1, 1)]"
    by (simp add: mysql_like_def insert_ignore_like_def sample_mysql_liked_def sample_mysql_def
        Let_def)
  have r2: "fst (mysql_like sample_mysql_liked 2 7) = Success 200 3"
    using like_twice_same_as_once [of sample_mongo_liked 10 sample_photo 7 2 sample_mysql_liked 7]
    by (simp add: mysql_like_def insert_ignore_like_def sample_mysql_liked_def sample_mysql_def
        Let_def)
  show ?thesis
    using like_twice_same_as_once [of sample_mongo_liked 10 sample_photo 7 1 sample_mysql_liked 1]
      h1 h2 h3 h4 m r r2
    by auto
qed





lemma authRequired_cases:
  "(\<exists>uid. (authRequired E h :: 'a response + nat) = Inr uid) \<or>
   (\<exists>m. (authRequired E h :: 'a response + nat) = Inl (Error 401 m))"
  by (auto simp: authRequired_def split: option.splits list.splits)

text \<open>
  C4, as stated, fails in the MongoDB variant: with a valid bearer token, unliking a
  photo that is not in the store is answered with 404.
\<close>

theorem unlike_absent_photo_counterexample:
  "(authRequired sample_env (Some ''Bearer tttttttt'') :: nat response + nat) = Inr 7 \<and>
   findById (Photo sample_mongo) 99 = None \<and>
   mongo_unlike_route sample_env sample_mongo (Some ''Bearer tttttttt'') 99
     = (Error 404 PhotoNotFound, sample_mongo)"
  by (simp add: mongo_unlike_route_def guarded_def authRequired_def sample_env_def
        mongo_unlike_def findById_def sample_mongo_def sample_photo_def)

text \<open>
  C4, amended. With a valid bearer token, DELETE /photos/:id/like in the MySQL variant
  succeeds with 200 and the like count for any photo id; in the MongoDB variant it
  succeeds with 200 and the like count when the photo is in the store, and fails with
  404 when it is not. Without a valid token both variants answer 401 and leave the
  store as it is.
\<close>

theorem unlike_route_outcomes:
  "((authRequired E h :: nat response + nat) = Inr uid \<longrightarrow>
      mysql_unlike_route E rdb h rid =
        (Success 200 (count_likes (delete_like rdb rid uid) rid), delete_like rdb rid uid) \<and>
      (findById (Photo db) pid = None \<longrightarrow>
         mongo_unlike_route E db h pid = (Error 404 PhotoNotFound, db)) \<and>
      (findById (Photo db) pid \<noteq> None \<longrightarrow>
         (\<exists>n db'. mongo_unlike_route E db h pid = (Success 200 n, db') \<and>
                   mongo_likesCount db' pid = Some n)))
   \<and>
   ((\<forall>uid. (authRequired E h :: nat response + nat) \<noteq> Inr uid) \<longrightarrow>
      (\<exists>m. mysql_unlike_route E rdb h rid = (Error 401 m, rdb) \<and>
           mongo_unlike_route E db h pid = (Error 401 m, db)))"
proof (intro conjI impI)
  assume a: "(authRequired E h :: nat response + nat) = Inr uid"
  show "mysql_unlike_route E rdb h rid =
        (Success 200 (count_likes (delete_like rdb rid uid) rid), delete_like rdb rid uid)"
    using a by (simp add: mysql_unlike_route_def guarded_def mysql_unlike_def Let_def)
  { assume "findById (Photo db) pid = None"
    then show "mongo_unlike_route E db h pid = (Error 404 PhotoNotFound, db)"
      using a by (simp add: mongo_unlike_route_def guarded_def mongo_unlike_def) }
  { assume "findById (Photo db) pid \<noteq> None"
    then obtain ph where f: "findById (Photo db) pid = Some ph" by auto
    have id: "p_id (ph\<lparr>p_likes := filter (\<lambda>u. u \<noteq> uid) (p_likes ph)\<rparr>) = pid"
      using findById_id[OF f] by simp
    show "\<exists>n db'. mongo_unlike_route E db h pid = (Success 200 n, db') \<and>
                   mongo_likesCount db' pid = Some n"
      using a f findById_save[OF f id]
      by (simp add: mongo_unlike_route_def guarded_def mongo_unlike_def mongo_likesCount_def) }
next
  assume n: "\<forall>uid. (authRequired E h :: nat response + nat) \<noteq> Inr uid"
  then obtain m where "(authRequired E h :: nat response + nat) = Inl (Error 401 m)"
    using authRequired_cases[of E h, where 'a = nat] by auto
  then show "\<exists>m. mysql_unlike_route E rdb h rid = (Error 401 m, rdb) \<and>
           mongo_unlike_route E db h pid = (Error 401 m, db)"
    by (simp add: mysql_unlike_route_def mongo_unlike_route_def guarded_def)
qed

theorem unlike_route_outcomes_witness:
  "(authRequired sample_env (Some ''Bearer tttttttt'') :: nat response + nat) = Inr 7 \<and>
   mysql_unlike_route sample_env sample_mysql (Some ''Bearer tttttttt'') 99 = (Success 200 0, sample_mysql) \<and>
   findById (Photo sample_mongo) 10 \<noteq> None \<and>
   (\<exists>n db'. mongo_unlike_route sample_env sample_mongo (Some ''Bearer tttttttt'') 10 = (Success 200 n, db')) \<and>
   (\<forall>uid. (authRequired sample_env (Some ''Bearer'') :: nat response + nat) \<noteq> Inr uid) \<and>
   (\<exists>m. mysql_unlike_route sample_env sample_mysql (Some ''Bearer'') 1 = (Error 401 m, sample_mysql))"
proof -
  have a: "(authRequired sample_env (Some ''Bearer tttttttt'') :: nat response + nat) = Inr 7"
    by (simp add: authRequired_def sample_env_def)
  have b: "findById (Photo sample_mongo) 10 \<noteq> None"
    by (simp add: sample_mongo_def sample_photo_def findById_def)
  have c: "\<forall>uid. (authRequired sample_env (Some ''Bearer'') :: nat response + nat) \<noteq> Inr uid"
    by (simp add: authRequired_def sample_env_def)
  have d: "delete_like sample_mysql 99 7 = sample_mysql" "count_likes sample_mysql 99 = 0"
    by (simp_all add: delete_like_def sample_mysql_def count_likes_def)
  show ?thesis
    using unlike_route_outcomes [of sample_env "Some ''Bearer tttttttt''" 7 sample_mysql 99 sample_mongo 10]
      unlike_route_outcomes [of sample_env "Some ''Bearer''" 0 sample_mysql 1 sample_mongo 10]
      a b c d
    by auto
qed

subsection \<open>At most one like per user and photo\<close>

lemma list_all_save: "list_all P ps \<Longrightarrow> P d \<Longrightarrow> list_all P (save d ps)"
  by (induction ps) auto

lemma findById_in_set: "findById ps pid = Some ph \<Longrightarrow> ph \<in> set ps"
  unfolding findById_def by (induction ps) (auto split: if_splits)

lemma mongo_like_unique:
  assumes "mongo_likes_unique db"
  shows "mongo_likes_unique (snd (mongo_like db pid uid))"
proof (cases "findById (Photo db) pid")
  case None
  then show ?thesis using assms by (simp add: mongo_like_def)
next
  case (Some ph)
  have "distinct (p_likes ph)"
    using assms findById_in_set[OF Some] by (simp add: mongo_likes_unique_def list_all_iff)
  then show ?thesis
    using assms Some
    by (simp add: mongo_like_found[OF Some] mongo_likes_unique_def list_all_save)
qed

lemma mongo_unlike_unique:
  assumes "mongo_likes_unique db"
  shows "mongo_likes_unique (snd (mongo_unlike db pid uid))"
proof (cases "findById (Photo db) pid")
  case None
  then show ?thesis using assms by (simp add: mongo_unlike_def)
next
  case (Some ph)
  have "distinct (p_likes ph)"
    using assms findById_in_set[OF Some] by (simp add: mongo_likes_unique_def list_all_iff)
  then show ?thesis
    using assms Some
    by (simp add: mongo_unlike_def mongo_likes_unique_def list_all_save)
qed

lemma mongo_register_photos: "Photo (snd (mongo_register E db un em pw)) = Photo db"
  by (simp add: mongo_register_def Let_def split: option.splits)

lemma mongo_create_comment_photos:
  "Photo (snd (mongo_create_comment E db pid text_q uid)) = Photo db"
  by (simp add: mongo_create_comment_def Let_def split: option.splits)

lemma mongo_upload_unique:
  "mongo_likes_unique db \<Longrightarrow> mongo_likes_unique (snd (mongo_upload E db fl caption uid))"
  by (simp add: mongo_upload_def mongo_likes_unique_def Let_def split: option.splits)

lemma guarded_preserves:
  "P db \<Longrightarrow> (\<And>uid. P (snd (handler uid))) \<Longrightarrow> P (snd (guarded E h db handler))"
  by (simp add: guarded_def split: sum.splits)

lemma mongo_step_unique:
  "mongo_likes_unique db \<Longrightarrow> mongo_likes_unique (mongo_step db (E, rq))"
proof (cases rq)
  case (Register un em pw)
  assume "mongo_likes_unique db"
  then show ?thesis
    using Register by (simp add: mongo_likes_unique_def mongo_register_photos)
next
  case (UploadPhoto h fl caption)
  assume "mongo_likes_unique db"
  then show ?thesis
    using UploadPhoto
    by (simp add: mongo_upload_route_def guarded_preserves mongo_upload_unique)
next
  case (LikePhoto h pid)
  assume "mongo_likes_unique db"
  then show ?thesis
    using LikePhoto by (simp add: mongo_like_route_def guarded_preserves mongo_like_unique)
next
  case (UnlikePhoto h pid)
  assume "mongo_likes_unique db"
  then show ?thesis
    using UnlikePhoto by (simp add: mongo_unlike_route_def guarded_preserves mongo_unlike_unique)
next
  case (CreateComment h pid text_q)
  assume a: "mongo_likes_unique db"
  have "\<And>uid. mongo_likes_unique (snd (mongo_create_comment E db pid text_q uid))"
    using a by (simp add: mongo_likes_unique_def mongo_create_comment_photos)
  then show ?thesis
    using a CreateComment by (simp add: mongo_create_comment_route_def guarded_preserves)
qed simp_all

lemma mongo_run_unique:
  "mongo_likes_unique db \<Longrightarrow> mongo_likes_unique (mongo_run db rqs)"
  unfolding mongo_run_def
proof (induction rqs arbitrary: db)
  case Nil
  then show ?case by simp
next
  case (Cons rq rqs)
  obtain E r where "rq = (E, r)" by (cases rq)
  then show ?case using Cons mongo_step_unique by simp
qed

lemma insert_ignore_unique:
  "mysql_likes_unique db \<Longrightarrow> mysql_likes_unique (insert_ignore_like db pid uid)"
  by (simp add: mysql_likes_unique_def insert_ignore_like_def)

lemma delete_like_unique:
  "mysql_likes_unique db \<Longrightarrow> mysql_likes_unique (delete_like db pid uid)"
  by (simp add: mysql_likes_unique_def delete_like_def)

lemma mysql_register_likes: "photo_likes (snd (mysql_register E db un em pw)) = photo_likes db"
  by (simp add: mysql_register_def Let_def split: option.splits)

lemma mysql_upload_likes: "photo_likes (snd (mysql_upload E db file caption uid)) = photo_likes db"
  by (simp add: mysql_upload_def Let_def split: option.splits)

lemma mysql_create_comment_likes:
  "photo_likes (snd (mysql_create_comment E db pid text_q uid)) = photo_likes db"
  by (simp add: mysql_create_comment_def Let_def split: option.splits)

lemma mysql_step_unique:
  "mysql_likes_unique db \<Longrightarrow> mysql_likes_unique (mysql_step db (E, rq))"
proof (cases rq)
  case (Register un em pw)
  assume "mysql_likes_unique db"
  then show ?thesis
    using Register by (simp add: mysql_likes_unique_def mysql_register_likes)
next
  case (UploadPhoto h fl caption)
  assume a: "mysql_likes_unique db"
  have "\<And>uid. mysql_likes_unique (snd (mysql_upload E db fl caption uid))"
    using a by (simp add: mysql_likes_unique_def mysql_upload_likes)
  then show ?thesis
    using a UploadPhoto by (simp add: mysql_upload_route_def guarded_preserves)
next
  case (LikePhoto h pid)
  assume a: "mysql_likes_unique db"
  have "\<And>uid. mysql_likes_unique (snd (mysql_like db pid uid))"
    using a by (simp add: mysql_like_def Let_def insert_ignore_unique)
  then show ?thesis
    using a LikePhoto by (simp add: mysql_like_route_def guarded_preserves)
next
  case (UnlikePhoto h pid)
  assume a: "mysql_likes_unique db"
  have "\<And>uid. mysql_likes_unique (snd (mysql_unlike db pid uid))"
    using a by (simp add: mysql_unlike_def Let_def delete_like_unique)
  then show ?thesis
    using a UnlikePhoto by (simp add: mysql_unlike_route_def guarded_preserves)
next
  case (CreateComment h pid text_q)
  assume a: "mysql_likes_unique db"
  have "\<And>uid. mysql_likes_unique (snd (mysql_create_comment E db pid text_q uid))"
    using a by (simp add: mysql_likes_unique_def mysql_create_comment_likes)
  then show ?thesis
    using a CreateComment by (simp add: mysql_create_comment_route_def guarded_preserves)
qed simp_all

lemma mysql_run_unique:
  "mysql_likes_unique db \<Longrightarrow> mysql_likes_unique (mysql_run db rqs)"
  unfolding mysql_run_def
proof (induction rqs arbitrary: db)
  case Nil
  then show ?case by simp
next
  case (Cons rq rqs)
  obtain E r where "rq = (E, r)" by (cases rq)
  then show ?case using Cons mysql_step_unique by simp
qed

text \<open>
  C2. Whatever requests are served, one after the other, starting from the empty store:
  no photo's \<open>likes\<close> array holds a user id twice (MongoDB variant), and \<open>photo_likes\<close>
  holds no row twice (MySQL variant). The runs range over every route that touches the
  store, registration and login included, and over every environment.
\<close>

theorem likes_unique_in_every_run:
  "mongo_likes_unique (mongo_run mongo_empty rqs) \<and>
   mysql_likes_unique (mysql_run mysql_empty rqs')"
proof
  have "mongo_likes_unique mongo_empty"
    by (simp add: mongo_likes_unique_def mongo_empty_def)
  then show "mongo_likes_unique (mongo_run mongo_empty rqs)"
    by (rule mongo_run_unique)
  have "mysql_likes_unique mysql_empty"
    by (simp add: mysql_likes_unique_def mysql_empty_def)
  then show "mysql_likes_unique (mysql_run mysql_empty rqs')"
    by (rule mysql_run_unique)
qed

theorem likes_unique_in_every_run_witness:
  "mongo_likes_unique (mongo_run mongo_empty (sample_requests 2)) \<and>
   map p_likes (Photo (mongo_run mongo_empty (sample_requests 2))) = [[1]] \<and>
   mysql_likes_unique (mysql_run mysql_empty (sample_requests 1)) \<and>
   photo_likes (mysql_run mysql_empty (sample_requests 1)) = [(1, 1)]"
proof -
  have m: "map p_likes (Photo (mongo_run mongo_empty (sample_requests 2))) = [[1]]"
    by (simp add: mongo_run_def sample_requests_def mongo_empty_def sample_env_def
        mongo_register_def mongo_upload_route_def mongo_like_route_def guarded_def
        authRequired_def mongo_upload_def mongo_like_def findById_def Let_def)
  have r: "photo_likes (mysql_run mysql_empty (sample_requests 1)) = [(1, 1)]"
    by (simp add: mysql_run_def sample_requests_def mysql_empty_def sample_env_def
        mysql_register_def mysql_upload_route_def mysql_like_route_def guarded_def
        authRequired_def mysql_upload_def mysql_like_def insert_ignore_like_def Let_def)
  show ?thesis
    using likes_unique_in_every_run [of "sample_requests 2" "sample_requests 1"] m r
    by simp
qed

subsection \<open>The authentication guard\<close>

lemma split_nonempty: "split sep s \<noteq> []"
  by (induction s) (auto split: list.splits)

lemma split_no_sep: "sep \<notin> set s \<Longrightarrow> split sep s = [s]"
  by (induction s) auto

lemma split_append: "sep \<notin> set a \<Longrightarrow> split sep (a @ sep # b) = a # split sep b"
  by (induction a) auto

lemma drop1_second: "drop (Suc 0) xs = y # ys \<Longrightarrow> 2 \<le> length xs \<and> xs ! Suc 0 = y"
  by (cases xs; cases "tl xs") auto

lemma authRequired_Inr_iff:
  "((authRequired E h :: 'a response + nat) = Inr uid) =
     (\<exists>hs. h = Some hs \<and> 2 \<le> length (split (CHR '' '') hs) \<and>
           split (CHR '' '') hs ! 1 \<noteq> [] \<and>
           jwt_verify E (split (CHR '' '') hs ! 1) = Some uid)"
proof (cases h)
  case None
  then show ?thesis by (simp add: authRequired_def)
next
  case (Some hs)
  show ?thesis
  proof (cases "drop 1 (split (CHR '' '') hs)")
    case Nil
    then have "length (split (CHR '' '') hs) \<le> 1" by simp
    then show ?thesis using Some Nil by (auto simp: authRequired_def)
  next
    case (Cons t ts)
    then have l: "2 \<le> length (split (CHR '' '') hs)" and t: "split (CHR '' '') hs ! 1 = t"
      using drop1_second[of "split (CHR '' '') hs" t ts] by simp_all
    have ne: "hs \<noteq> []" using l by (cases hs) auto
    show ?thesis
      using Some Cons l t ne by (auto simp: authRequired_def split: option.splits)
  qed
qed

text \<open>
  C10, as stated, fails at the separator. The guard cuts the header at every single
  space: with two spaces between scheme and token, the header has two
  white-space-separated parts and the second is a valid token, but the guard reads an
  empty token and answers 401; and a header made of one space and a valid token has one
  such part only, and is accepted.
\<close>

theorem authRequired_whitespace_counterexample:
  "2 \<le> length (whitespace_separated_parts ''Bearer  tttttttt'') \<and>
   jwt_verify sample_env (whitespace_separated_parts ''Bearer  tttttttt'' ! 1) = Some 7 \<and>
   (authRequired sample_env (Some ''Bearer  tttttttt'') :: nat response + nat)
     = Inl (Error 401 MissingToken) \<and>
   length (whitespace_separated_parts '' tttttttt'') = 1 \<and>
   (authRequired sample_env (Some '' tttttttt'') :: nat response + nat) = Inr 7"
  by (simp add: whitespace_separated_parts_def is_space_def sample_env_def authRequired_def)

text \<open>
  C10, amended. The guard never inspects the scheme: authentication succeeds, with the
  token's user id, exactly when the header cut at every single space character has a
  second piece that is not empty and verifies. Otherwise the answer is a 401 and the
  handler is not run. So any scheme word followed by one space and a valid token is
  accepted; a scheme word alone, an absent header and an invalid token yield 401.
\<close>

theorem authRequired_accepts_iff:
  "(((authRequired E h :: 'a response + nat) = Inr uid) =
      (\<exists>hs. h = Some hs \<and> 2 \<le> length (split (CHR '' '') hs) \<and>
            split (CHR '' '') hs ! 1 \<noteq> [] \<and>
            jwt_verify E (split (CHR '' '') hs ! 1) = Some uid))
   \<and>
   ((\<forall>u. (authRequired E h :: 'a response + nat) \<noteq> Inr u) \<longrightarrow>
      (\<exists>m. (authRequired E h :: 'a response + nat) = Inl (Error 401 m) \<and>
           guarded E h db handler = (Error 401 m :: 'a response, db)))
   \<and>
   (CHR '' '' \<notin> set scheme \<and> scheme \<noteq> [] \<and> CHR '' '' \<notin> set t \<and> t \<noteq> [] \<longrightarrow>
      (authRequired E (Some (scheme @ CHR '' '' # t)) :: 'a response + nat) =
        (case jwt_verify E t of None \<Rightarrow> Inl (Error 401 InvalidToken) | Some u \<Rightarrow> Inr u))
   \<and>
   (CHR '' '' \<notin> set scheme \<and> scheme \<noteq> [] \<longrightarrow>
      (authRequired E (Some scheme) :: 'a response + nat) = Inl (Error 401 MissingToken))
   \<and>
   (authRequired E None :: 'a response + nat) = Inl (Error 401 MissingAuthHeader)"
proof (intro conjI impI)
  show "((authRequired E h :: 'a response + nat) = Inr uid) =
      (\<exists>hs. h = Some hs \<and> 2 \<le> length (split (CHR '' '') hs) \<and>
            split (CHR '' '') hs ! 1 \<noteq> [] \<and>
            jwt_verify E (split (CHR '' '') hs ! 1) = Some uid)"
    by (rule authRequired_Inr_iff)
next
  assume "\<forall>u. (authRequired E h :: 'a response + nat) \<noteq> Inr u"
  then obtain m where "(authRequired E h :: 'a response + nat) = Inl (Error 401 m)"
    using authRequired_cases[of E h, where 'a = 'a] by auto
  then show "\<exists>m. (authRequired E h :: 'a response + nat) = Inl (Error 401 m) \<and>
           guarded E h db handler = (Error 401 m :: 'a response, db)"
    by (simp add: guarded_def)
next
  assume a: "CHR '' '' \<notin> set scheme \<and> scheme \<noteq> [] \<and> CHR '' '' \<notin> set t \<and> t \<noteq> []"
  then have "split (CHR '' '') (scheme @ CHR '' '' # t) = [scheme, t]"
    by (simp add: split_append split_no_sep)
  then show "(authRequired E (Some (scheme @ CHR '' '' # t)) :: 'a response + nat) =
        (case jwt_verify E t of None \<Rightarrow> Inl (Error 401 InvalidToken) | Some u \<Rightarrow> Inr u)"
    using a by (simp add: authRequired_def)
next
  assume "CHR '' '' \<notin> set scheme \<and> scheme \<noteq> []"
  then show "(authRequired E (Some scheme) :: 'a response + nat) = Inl (Error 401 MissingToken)"
    by (simp add: authRequired_def split_no_sep)
next
  show "(authRequired E None :: 'a response + nat) = Inl (Error 401 MissingAuthHeader)"
    by (simp add: authRequired_def)
qed

theorem authRequired_accepts_iff_witness:
  "(authRequired sample_env (Some ''Basic tttttttt'') :: nat response + nat) = Inr 7 \<and>
   (authRequired sample_env (Some ''Bearer'') :: nat response + nat) = Inl (Error 401 MissingToken) \<and>
   (authRequired sample_env (Some ''Bearer xyz'') :: nat response + nat) = Inl (Error 401 InvalidToken) \<and>
   (authRequired sample_env None :: nat response + nat) = Inl (Error 401 MissingAuthHeader) \<and>
   mongo_like_route sample_env sample_mongo (Some ''Bearer xyz'') 10 = (Error 401 InvalidToken, sample_mongo)"
proof -
  have v: "jwt_verify sample_env ''tttttttt'' = Some 7" "jwt_verify sample_env ''xyz'' = None"
    by (simp_all add: sample_env_def)
  have n: "\<forall>u. (authRequired sample_env (Some ''Bearer xyz'') :: nat response + nat) \<noteq> Inr u"
    by (simp add: authRequired_def sample_env_def)
  show ?thesis
    using authRequired_accepts_iff [of sample_env "Some ''Bearer xyz''" 0 sample_mongo
             "mongo_like sample_mongo 10" "''Basic''" "''tttttttt''"]
          authRequired_accepts_iff [of sample_env None 0 sample_mongo
             "mongo_like sample_mongo 10" "''Bearer''" "''xyz''"]
          v n
    by (auto simp: mongo_like_route_def)
qed

subsection \<open>Registration and login\<close>

lemma find_present: "\<exists>x \<in> set xs. P x \<Longrightarrow> \<exists>y. find P xs = Some y"
  by (cases "find P xs") (auto simp: find_None_iff)

lemma filter_present: "\<exists>x \<in> set xs. P x \<Longrightarrow> 0 < length (filter P xs)"
  by (auto simp: filter_empty_conv)

text \<open>
  C6. A registration that supplies its three fields (a request with a field missing or
  empty is answered 400 before the store is read) fails with 409 and leaves the store
  as it is whenever a stored user has the same email, whatever the username, and
  whenever a stored user has the same username, whatever the email. Both variants.
\<close>

theorem register_duplicate_rejected:
  "un \<noteq> [] \<and> em \<noteq> [] \<and> pw \<noteq> [] \<longrightarrow>
     ((\<exists>u \<in> set (User db). u_email u = em) \<longrightarrow>
        mongo_register E db (Some un) (Some em) (Some pw) = (Error 409 UserAlreadyExists, db)) \<and>
     ((\<exists>u \<in> set (User db). u_username u = un) \<longrightarrow>
        mongo_register E db (Some un) (Some em) (Some pw) = (Error 409 UserAlreadyExists, db)) \<and>
     ((\<exists>u \<in> set (users rdb). users_email u = em) \<longrightarrow>
        mysql_register E rdb (Some un) (Some em) (Some pw) = (Error 409 UserAlreadyExists, rdb)) \<and>
     ((\<exists>u \<in> set (users rdb). users_username u = un) \<longrightarrow>
        mysql_register E rdb (Some un) (Some em) (Some pw) = (Error 409 UserAlreadyExists, rdb))"
proof (intro impI conjI)
  assume a: "un \<noteq> [] \<and> em \<noteq> [] \<and> pw \<noteq> []"
  { assume "\<exists>u \<in> set (User db). u_email u = em"
    then have "\<exists>u \<in> set (User db). u_email u = em \<or> u_username u = un" by auto
    then obtain y where "find (\<lambda>u. u_email u = em \<or> u_username u = un) (User db) = Some y"
      using find_present[of "User db" "\<lambda>u. u_email u = em \<or> u_username u = un"] by auto
    then show "mongo_register E db (Some un) (Some em) (Some pw) = (Error 409 UserAlreadyExists, db)"
      using a by (simp add: mongo_register_def) }
  { assume "\<exists>u \<in> set (User db). u_username u = un"
    then have "\<exists>u \<in> set (User db). u_email u = em \<or> u_username u = un" by auto
    then obtain y where "find (\<lambda>u. u_email u = em \<or> u_username u = un) (User db) = Some y"
      using find_present[of "User db" "\<lambda>u. u_email u = em \<or> u_username u = un"] by auto
    then show "mongo_register E db (Some un) (Some em) (Some pw) = (Error 409 UserAlreadyExists, db)"
      using a by (simp add: mongo_register_def) }
  { assume "\<exists>u \<in> set (users rdb). users_email u = em"
    then have "\<exists>u \<in> set (users rdb). users_email u = em \<or> users_username u = un" by auto
    then have "0 < length (filter (\<lambda>u. users_email u = em \<or> users_username u = un) (users rdb))"
      by (rule filter_present)
    then show "mysql_register E rdb (Some un) (Some em) (Some pw) = (Error 409 UserAlreadyExists, rdb)"
      using a by (simp add: mysql_register_def) }
  { assume "\<exists>u \<in> set (users rdb). users_username u = un"
    then have "\<exists>u \<in> set (users rdb). users_email u = em \<or> users_username u = un" by auto
    then have "0 < length (filter (\<lambda>u. users_email u = em \<or> users_username u = un) (users rdb))"
      by (rule filter_present)
    then show "mysql_register E rdb (Some un) (Some em) (Some pw) = (Error 409 UserAlreadyExists, rdb)"
      using a by (simp add: mysql_register_def) }
qed

theorem register_duplicate_rejected_witness:
  "mongo_register sample_env sample_mongo (Some ''bob'') (Some ''a@x.com'') (Some ''pw456'')
     = (Error 409 UserAlreadyExists, sample_mongo) \<and>
   mongo_register sample_env sample_mongo (Some ''alice'') (Some ''b@x.com'') (Some ''pw456'')
     = (Error 409 UserAlreadyExists, sample_mongo) \<and>
   mysql_register sample_env sample_mysql (Some ''bob'') (Some ''a@x.com'') (Some ''pw456'')
     = (Error 409 UserAlreadyExists, sample_mysql) \<and>
   mysql_register sample_env sample_mysql (Some ''alice'') (Some ''b@x.com'') (Some ''pw456'')
     = (Error 409 UserAlreadyExists, sample_mysql)"
proof -
  have m: "\<exists>u \<in> set (User sample_mongo). u_email u = ''a@x.com''"
          "\<exists>u \<in> set (User sample_mongo). u_username u = ''alice''"
    by (simp_all add: sample_mongo_def)
  have r: "\<exists>u \<in> set (users sample_mysql). users_email u = ''a@x.com''"
          "\<exists>u \<in> set (users sample_mysql). users_username u = ''alice''"
    by (simp_all add: sample_mysql_def)
  show ?thesis
    using register_duplicate_rejected [of "''bob''" "''a@x.com''" "''pw456''" sample_mongo sample_env sample_mysql]
          register_duplicate_rejected [of "''alice''" "''b@x.com''" "''pw456''" sample_mongo sample_env sample_mysql]
          m r
    by simp
qed

lemma choose_one_member: "choose_one E ident ms = Some m \<Longrightarrow> m \<in> set ms"
proof -
  assume a: "choose_one E ident ms = Some m"
  then have ne: "ms \<noteq> []" by (auto simp: choose_one_def)
  then have "storage_choice E (map ident ms) mod length ms < length ms" by simp
  then have "ms ! (storage_choice E (map ident ms) mod length ms) \<in> set ms" by (rule nth_mem)
  moreover have "m = ms ! (storage_choice E (map ident ms) mod length ms)"
    using a ne by (cases ms) (simp_all add: choose_one_def)
  ultimately show ?thesis by simp
qed

lemma choose_one_none: "choose_one E ident [] = None"
  by (simp add: choose_one_def)

lemma choose_one_some: "ms \<noteq> [] \<Longrightarrow> \<exists>m. choose_one E ident ms = Some m"
  by (cases ms) (auto simp: choose_one_def)

lemma mongo_login_all_fail:
  assumes "i \<noteq> []" "pw \<noteq> []"
    and "\<forall>u \<in> set (User db).
           (u_email u = i \<or> u_username u = i) \<longrightarrow> \<not> bcrypt_compare E pw (u_passwordHash u)"
  shows "mongo_login E db (Some i) (Text pw) = Error 401 BadCredentials"
proof (cases "choose_one E u_id (filter (\<lambda>u. u_email u = i \<or> u_username u = i) (User db))")
  case None
  then show ?thesis using assms by (simp add: mongo_login_def field_falsy_def)
next
  case (Some user)
  then have "user \<in> set (filter (\<lambda>u. u_email u = i \<or> u_username u = i) (User db))"
    by (rule choose_one_member)
  then have "\<not> bcrypt_compare E pw (u_passwordHash user)" using assms by auto
  then show ?thesis
    using assms Some by (simp add: mongo_login_def field_falsy_def compare_field_def)
qed

lemma mysql_login_all_fail:
  assumes "i \<noteq> []" "pw \<noteq> []"
    and "\<forall>u \<in> set (users db).
           (users_email u = i \<or> users_username u = i) \<longrightarrow>
             \<not> bcrypt_compare E pw (users_password_hash u)"
  shows "mysql_login E db (Some i) (Text pw) = Error 401 BadCredentials"
proof (cases "choose_one E users_id
                (filter (\<lambda>u. users_email u = i \<or> users_username u = i) (users db))")
  case None
  then show ?thesis using assms by (simp add: mysql_login_def field_falsy_def)
next
  case (Some user)
  then have "user \<in> set (filter (\<lambda>u. users_email u = i \<or> users_username u = i) (users db))"
    by (rule choose_one_member)
  then have "\<not> bcrypt_compare E pw (users_password_hash user)" using assms by auto
  then show ?thesis
    using assms Some by (simp add: mysql_login_def field_falsy_def compare_field_def)
qed

lemma login_empty_password:
  "i \<noteq> [] \<Longrightarrow> mongo_login E db (Some i) (Text []) = Error 400 LoginFieldsRequired"
  "i \<noteq> [] \<Longrightarrow> mysql_login E rdb (Some i) (Text []) = Error 400 LoginFieldsRequired"
  by (simp_all add: mongo_login_def mysql_login_def field_falsy_def)

text \<open>
  The store after the two registrations of \<open>overlap_requests\<close>: the first user's
  username and the second user's email are both \<open>x@y.com\<close>. Whichever of the two a
  lookup of \<open>x@y.com\<close> returns, one of the two passwords logs in with it.
\<close>

lemma overlap_users:
  "User (mongo_run mongo_empty overlap_requests) =
     [\<lparr>u_id = 1, u_username = ''x@y.com'', u_email = ''a@b.com'', u_passwordHash = ''#pwA'',
       u_createdAt = 1000\<rparr>,
      \<lparr>u_id = 2, u_username = ''bob'', u_email = ''x@y.com'', u_passwordHash = ''#pwB'',
       u_createdAt = 1000\<rparr>]"
  by (simp add: mongo_run_def overlap_requests_def mongo_empty_def sample_env_def
      mongo_register_def Let_def)

lemma overlap_login_any_choice:
  assumes "bcrypt_compare E = bcrypt_compare sample_env"
  shows "status_of (mongo_login E (mongo_run mongo_empty overlap_requests)
                      (Some ''x@y.com'') (Text ''pwA'')) = 200 \<or>
         status_of (mongo_login E (mongo_run mongo_empty overlap_requests)
                      (Some ''x@y.com'') (Text ''pwB'')) = 200"
proof -
  have "storage_choice E [Suc 0, 2] mod Suc (Suc 0) = 0 \<or>
        storage_choice E [Suc 0, 2] mod Suc (Suc 0) = Suc 0"
    by (metis One_nat_def Suc_1 less_2_cases mod_less_divisor zero_less_Suc)
  then show ?thesis
  proof
    assume "storage_choice E [Suc 0, 2] mod Suc (Suc 0) = 0"
    then have "status_of (mongo_login E (mongo_run mongo_empty overlap_requests)
                      (Some ''x@y.com'') (Text ''pwA'')) = 200"
      using assms
      by (simp add: mongo_login_def overlap_users choose_one_def field_falsy_def
          compare_field_def sample_env_def)
    then show ?thesis by simp
  next
    assume "storage_choice E [Suc 0, 2] mod Suc (Suc 0) = Suc 0"
    then have "status_of (mongo_login E (mongo_run mongo_empty overlap_requests)
                      (Some ''x@y.com'') (Text ''pwB'')) = 200"
      using assms
      by (simp add: mongo_login_def overlap_users choose_one_def field_falsy_def
          compare_field_def sample_env_def)
    then show ?thesis by simp
  qed
qed

text \<open>
  C5, as stated, fails when an identifier matches two users. Email and username are
  looked up together, and registration lets a username equal another user's email.
  After the two registrations of \<open>overlap_requests\<close>, \<open>x@y.com\<close> is the username of the
  first user (password \<open>pwA\<close>) and the email of the second, bob (password \<open>pwB\<close>).
  Neither password verifies against the other user's hash. When the lookup returns the
  first user, the login with bob's email and \<open>pwA\<close> succeeds; when it returns bob, the
  login with the first user's username and \<open>pwB\<close> succeeds. An unknown identifier gets
  401 either way.
\<close>

theorem login_overlap_counterexample:
  "map u_username (User (mongo_run mongo_empty overlap_requests)) = [''x@y.com'', ''bob''] \<and>
   map u_email (User (mongo_run mongo_empty overlap_requests)) = [''a@b.com'', ''x@y.com''] \<and>
   map u_passwordHash (User (mongo_run mongo_empty overlap_requests)) = [''#pwA'', ''#pwB''] \<and>
   \<not> bcrypt_compare sample_env ''pwA'' ''#pwB'' \<and>
   \<not> bcrypt_compare last_match_env ''pwB'' ''#pwA'' \<and>
   mongo_login sample_env (mongo_run mongo_empty overlap_requests)
       (Some ''x@y.com'') (Text ''pwA'')
     = Success 200 (''tt'', \<lparr>s_id = 1, s_username = ''x@y.com'', s_email = ''a@b.com''\<rparr>) \<and>
   mongo_login sample_env (mongo_run mongo_empty overlap_requests)
       (Some ''nobody'') (Text ''pwA'')
     = Error 401 BadCredentials \<and>
   mongo_login last_match_env (mongo_run mongo_empty overlap_requests)
       (Some ''x@y.com'') (Text ''pwB'')
     = Success 200 (''ttt'', \<lparr>s_id = 2, s_username = ''bob'', s_email = ''x@y.com''\<rparr>) \<and>
   mongo_login last_match_env (mongo_run mongo_empty overlap_requests)
       (Some ''nobody'') (Text ''pwB'')
     = Error 401 BadCredentials"
  by (simp add: overlap_users mongo_login_def choose_one_def field_falsy_def compare_field_def
      sample_env_def last_match_env_def eval_nat_numeral)

text \<open>
  C5, amended. When the password, a string, verifies against the hash of no stored
  user whose email or username is the identifier, the login's response equals the
  response to an identifier that matches no stored user (both identifiers supplied): 401
  with the same body when the password is not empty. This does not depend on which
  matching user the storage returns. Both variants.
\<close>

theorem login_wrong_password_like_unknown:
  "(i \<noteq> [] \<and> j \<noteq> [] \<and>
    (\<forall>u \<in> set (User db).
       (u_email u = i \<or> u_username u = i) \<longrightarrow> \<not> bcrypt_compare E pw (u_passwordHash u)) \<and>
    (\<forall>v \<in> set (User db). u_email v \<noteq> j \<and> u_username v \<noteq> j) \<longrightarrow>
      mongo_login E db (Some i) (Text pw) = mongo_login E db (Some j) (Text pw) \<and>
      (pw \<noteq> [] \<longrightarrow> mongo_login E db (Some i) (Text pw) = Error 401 BadCredentials))
   \<and>
   (i \<noteq> [] \<and> j \<noteq> [] \<and>
    (\<forall>u \<in> set (users rdb).
       (users_email u = i \<or> users_username u = i) \<longrightarrow>
         \<not> bcrypt_compare E pw (users_password_hash u)) \<and>
    (\<forall>v \<in> set (users rdb). users_email v \<noteq> j \<and> users_username v \<noteq> j) \<longrightarrow>
      mysql_login E rdb (Some i) (Text pw) = mysql_login E rdb (Some j) (Text pw) \<and>
      (pw \<noteq> [] \<longrightarrow> mysql_login E rdb (Some i) (Text pw) = Error 401 BadCredentials))"
proof (intro conjI impI)
  assume a: "i \<noteq> [] \<and> j \<noteq> [] \<and>
    (\<forall>u \<in> set (User db).
       (u_email u = i \<or> u_username u = i) \<longrightarrow> \<not> bcrypt_compare E pw (u_passwordHash u)) \<and>
    (\<forall>v \<in> set (User db). u_email v \<noteq> j \<and> u_username v \<noteq> j)"
  then have n: "\<forall>u \<in> set (User db).
       (u_email u = j \<or> u_username u = j) \<longrightarrow> \<not> bcrypt_compare E pw (u_passwordHash u)"
    by auto
  show "mongo_login E db (Some i) (Text pw) = mongo_login E db (Some j) (Text pw)"
  proof (cases "pw = []")
    case True
    then show ?thesis using a by (simp add: login_empty_password)
  next
    case False
    then show ?thesis
      using a n mongo_login_all_fail[of i pw db E] mongo_login_all_fail[of j pw db E] by simp
  qed
  show "pw \<noteq> [] \<Longrightarrow> mongo_login E db (Some i) (Text pw) = Error 401 BadCredentials"
    using a mongo_login_all_fail[of i pw db E] by simp
next
  assume a: "i \<noteq> [] \<and> j \<noteq> [] \<and>
    (\<forall>u \<in> set (users rdb).
       (users_email u = i \<or> users_username u = i) \<longrightarrow>
         \<not> bcrypt_compare E pw (users_password_hash u)) \<and>
    (\<forall>v \<in> set (users rdb). users_email v \<noteq> j \<and> users_username v \<noteq> j)"
  then have n: "\<forall>u \<in> set (users rdb).
       (users_email u = j \<or> users_username u = j) \<longrightarrow>
         \<not> bcrypt_compare E pw (users_password_hash u)"
    by auto
  show "mysql_login E rdb (Some i) (Text pw) = mysql_login E rdb (Some j) (Text pw)"
  proof (cases "pw = []")
    case True
    then show ?thesis using a by (simp add: login_empty_password)
  next
    case False
    then show ?thesis
      using a n mysql_login_all_fail[of i pw rdb E] mysql_login_all_fail[of j pw rdb E] by simp
  qed
  show "pw \<noteq> [] \<Longrightarrow> mysql_login E rdb (Some i) (Text pw) = Error 401 BadCredentials"
    using a mysql_login_all_fail[of i pw rdb E] by simp
qed

theorem login_wrong_password_like_unknown_witness:
  "mongo_login sample_env sample_mongo (Some ''alice'') (Text ''guess'')
     = mongo_login sample_env sample_mongo (Some ''nobody'') (Text ''guess'') \<and>
   mongo_login last_match_env sample_mongo (Some ''alice'') (Text ''guess'')
     = Error 401 BadCredentials \<and>
   mysql_login sample_env sample_mysql (Some ''alice'') (Text ''guess'')
     = mysql_login sample_env sample_mysql (Some ''nobody'') (Text ''guess'') \<and>
   mysql_login last_match_env sample_mysql (Some ''alice'') (Text ''guess'')
     = Error 401 BadCredentials \<and>
   mongo_login sample_env sample_mongo (Some ''alice'') (Text ''pw123'')
     = Success 200 (''tttttttt'', \<lparr>s_id = 7, s_username = ''alice'', s_email = ''a@x.com''\<rparr>)"
proof -
  have m: "\<forall>u \<in> set (User sample_mongo).
             (u_email u = ''alice'' \<or> u_username u = ''alice'') \<longrightarrow>
               \<not> bcrypt_compare sample_env ''guess'' (u_passwordHash u)"
          "\<forall>u \<in> set (User sample_mongo).
             (u_email u = ''alice'' \<or> u_username u = ''alice'') \<longrightarrow>
               \<not> bcrypt_compare last_match_env ''guess'' (u_passwordHash u)"
          "\<forall>v \<in> set (User sample_mongo). u_email v \<noteq> ''nobody'' \<and> u_username v \<noteq> ''nobody''"
    by (simp_all add: sample_mongo_def sample_env_def last_match_env_def)
  have r: "\<forall>u \<in> set (users sample_mysql).
             (users_email u = ''alice'' \<or> users_username u = ''alice'') \<longrightarrow>
               \<not> bcrypt_compare sample_env ''guess'' (users_password_hash u)"
          "\<forall>u \<in> set (users sample_mysql).
             (users_email u = ''alice'' \<or> users_username u = ''alice'') \<longrightarrow>
               \<not> bcrypt_compare last_match_env ''guess'' (users_password_hash u)"
          "\<forall>v \<in> set (users sample_mysql).
             users_email v \<noteq> ''nobody'' \<and> users_username v \<noteq> ''nobody''"
    by (simp_all add: sample_mysql_def sample_env_def last_match_env_def)
  have ok: "mongo_login sample_env sample_mongo (Some ''alice'') (Text ''pw123'')
     = Success 200 (''tttttttt'', \<lparr>s_id = 7, s_username = ''alice'', s_email = ''a@x.com''\<rparr>)"
    by (simp add: mongo_login_def sample_mongo_def sample_env_def choose_one_def
        field_falsy_def compare_field_def eval_nat_numeral)
  have g: "''alice'' \<noteq> []" "''nobody'' \<noteq> []" "''guess'' \<noteq> []" by simp_all
  show ?thesis
    using login_wrong_password_like_unknown
            [of "''alice''" "''nobody''" sample_mongo sample_env "''guess''" sample_mysql]
          login_wrong_password_like_unknown
            [of "''alice''" "''nobody''" sample_mongo last_match_env "''guess''" sample_mysql]
          m r g ok
    by blast
qed

text \<open>
  A password that is no string is no plaintext password, and the property above does
  not speak of it. The handlers pass it to \<open>bcrypt.compare\<close> as it is: when that call
  throws on it, a known identifier is answered 500 and an unknown one 401.
\<close>

lemma login_nonstring_password:
  assumes "i \<noteq> []" "j \<noteq> []" "bcrypt_compare_nonstring E = None"
    and "\<exists>u \<in> set (User db). u_email u = i \<or> u_username u = i"
    and "\<forall>v \<in> set (User db). u_email v \<noteq> j \<and> u_username v \<noteq> j"
  shows "mongo_login E db (Some i) NonString = Error 500 ServerFault"
    and "mongo_login E db (Some j) NonString = Error 401 BadCredentials"
proof -
  have "filter (\<lambda>u. u_email u = i \<or> u_username u = i) (User db) \<noteq> []"
    using assms(4) by (auto simp: filter_empty_conv)
  then obtain m where
    "choose_one E u_id (filter (\<lambda>u. u_email u = i \<or> u_username u = i) (User db)) = Some m"
    using choose_one_some by blast
  then show "mongo_login E db (Some i) NonString = Error 500 ServerFault"
    using assms by (simp add: mongo_login_def field_falsy_def compare_field_def)
  have "filter (\<lambda>u. u_email u = j \<or> u_username u = j) (User db) = []"
    using assms(5) by (auto simp: filter_empty_conv)
  then show "mongo_login E db (Some j) NonString = Error 401 BadCredentials"
    using assms by (simp add: mongo_login_def field_falsy_def choose_one_none)
qed

subsection \<open>Creating a comment\<close>

text \<open>
  C7, as stated, fails in the MongoDB variant at its last step: the response is the
  created document, which names the author by id only. It is the same response when
  the author's username and email in the store are different ones.
\<close>

theorem mongo_comment_not_enriched_counterexample:
  "mongo_create_comment sample_env sample_mongo 10 (Some ''nice'') 7 =
     (Success 201 \<lparr>c_id = 1, c_photo = 10, c_author = 7, c_text = ''nice'', c_createdAt = 1000\<rparr>,
      sample_mongo\<lparr>Comment := [\<lparr>c_id = 1, c_photo = 10, c_author = 7, c_text = ''nice'',
                                  c_createdAt = 1000\<rparr>]\<rparr>) \<and>
   fst (mongo_create_comment sample_env
          (sample_mongo\<lparr>User := [\<lparr>u_id = 7, u_username = ''carol'', u_email = ''c@x.com'',
                                   u_passwordHash = ''#pw123'', u_createdAt = 500\<rparr>]\<rparr>)
          10 (Some ''nice'') 7) =
     fst (mongo_create_comment sample_env sample_mongo 10 (Some ''nice'') 7)"
  by (simp add: mongo_create_comment_def sample_mongo_def sample_photo_def sample_env_def
      findById_def Let_def)

text \<open>
  C7, amended. An empty or missing text is answered 400 and a text for a photo that is
  not in the store 404, both without a change to the store. Otherwise exactly one
  comment is added, referencing the photo and the author, and nothing else changes (in
  the MySQL variant the table's auto-increment value moves on). The response is 201
  with, in the MySQL variant, the comment and its author's id, username and email (for
  an author in \<open>users\<close> and an unused auto-increment value), and in the MongoDB variant
  the stored document.
\<close>

theorem create_comment_outcomes:
  "(falsy text_q \<longrightarrow>
      mongo_create_comment E db pid text_q uid = (Error 400 TextRequired, db) \<and>
      mysql_create_comment E rdb rid text_q ruid = (Error 400 TextRequired, rdb))
   \<and>
   (txt \<noteq> [] \<and> findById (Photo db) pid = None \<longrightarrow>
      mongo_create_comment E db pid (Some txt) uid = (Error 404 PhotoNotFound, db))
   \<and>
   (txt \<noteq> [] \<and> filter (\<lambda>p. photos_id p = rid) (photos rdb) = [] \<longrightarrow>
      mysql_create_comment E rdb rid (Some txt) ruid = (Error 404 PhotoNotFound, rdb))
   \<and>
   (txt \<noteq> [] \<and> findById (Photo db) pid = Some ph \<longrightarrow>
      mongo_create_comment E db pid (Some txt) uid =
        (Success 201 \<lparr>c_id = new_oid E, c_photo = pid, c_author = uid, c_text = txt,
                       c_createdAt = now E\<rparr>,
         db\<lparr>Comment := Comment db @
               [\<lparr>c_id = new_oid E, c_photo = pid, c_author = uid, c_text = txt,
                 c_createdAt = now E\<rparr>]\<rparr>))
   \<and>
   (txt \<noteq> [] \<and> filter (\<lambda>p. photos_id p = rid) (photos rdb) \<noteq> [] \<and>
    (\<forall>c \<in> set (comments rdb). comments_id c \<noteq> comments_auto rdb) \<and>
    filter (\<lambda>u. users_id u = ruid) (users rdb) = a # others \<longrightarrow>
      mysql_create_comment E rdb rid (Some txt) ruid =
        (Success 201 (Some \<lparr>k_id = comments_auto rdb, k_text = txt, k_createdAt = now E,
                             k_authorId = ruid, k_authorUsername = users_username a,
                             k_authorEmail = users_email a\<rparr>),
         rdb\<lparr>comments := comments rdb @
                [\<lparr>comments_id = comments_auto rdb, comments_photo_id = rid,
                  comments_author_id = ruid, comments_text = txt,
                  comments_created_at = now E\<rparr>],
              comments_auto := Suc (comments_auto rdb)\<rparr>))"
proof (intro conjI impI)
  assume "falsy text_q"
  then show "mongo_create_comment E db pid text_q uid = (Error 400 TextRequired, db)"
    and "mysql_create_comment E rdb rid text_q ruid = (Error 400 TextRequired, rdb)"
    by (simp_all add: falsy_def mongo_create_comment_def mysql_create_comment_def
        split: option.splits)
next
  assume "txt \<noteq> [] \<and> findById (Photo db) pid = None"
  then show "mongo_create_comment E db pid (Some txt) uid = (Error 404 PhotoNotFound, db)"
    by (simp add: mongo_create_comment_def)
next
  assume "txt \<noteq> [] \<and> filter (\<lambda>p. photos_id p = rid) (photos rdb) = []"
  then show "mysql_create_comment E rdb rid (Some txt) ruid = (Error 404 PhotoNotFound, rdb)"
    by (simp add: mysql_create_comment_def)
next
  assume a: "txt \<noteq> [] \<and> findById (Photo db) pid = Some ph"
  then have "p_id ph = pid" using findById_id[of "Photo db" pid ph] by simp
  then show "mongo_create_comment E db pid (Some txt) uid =
        (Success 201 \<lparr>c_id = new_oid E, c_photo = pid, c_author = uid, c_text = txt,
                       c_createdAt = now E\<rparr>,
         db\<lparr>Comment := Comment db @
               [\<lparr>c_id = new_oid E, c_photo = pid, c_author = uid, c_text = txt,
                 c_createdAt = now E\<rparr>]\<rparr>)"
    using a by (simp add: mongo_create_comment_def Let_def)
next
  assume a: "txt \<noteq> [] \<and> filter (\<lambda>p. photos_id p = rid) (photos rdb) \<noteq> [] \<and>
    (\<forall>c \<in> set (comments rdb). comments_id c \<noteq> comments_auto rdb) \<and>
    filter (\<lambda>u. users_id u = ruid) (users rdb) = a # others"
  then have old: "filter (\<lambda>c. comments_id c = comments_auto rdb) (comments rdb) = []"
    by (auto simp: filter_empty_conv)
  have "a \<in> set (filter (\<lambda>u. users_id u = ruid) (users rdb))" using a by simp
  then have aid: "users_id a = ruid" by simp
  show "mysql_create_comment E rdb rid (Some txt) ruid =
        (Success 201 (Some \<lparr>k_id = comments_auto rdb, k_text = txt, k_createdAt = now E,
                             k_authorId = ruid, k_authorUsername = users_username a,
                             k_authorEmail = users_email a\<rparr>),
         rdb\<lparr>comments := comments rdb @
                [\<lparr>comments_id = comments_auto rdb, comments_photo_id = rid,
                  comments_author_id = ruid, comments_text = txt,
                  comments_created_at = now E\<rparr>],
              comments_auto := Suc (comments_auto rdb)\<rparr>)"
    using a old aid by (simp add: mysql_create_comment_def comments_join_users_def Let_def)
qed

theorem create_comment_outcomes_witness:
  "falsy (Some []) \<and>
   mongo_create_comment sample_env sample_mongo 10 (Some []) 7 = (Error 400 TextRequired, sample_mongo) \<and>
   mongo_create_comment sample_env sample_mongo 11 (Some ''nice'') 7 = (Error 404 PhotoNotFound, sample_mongo) \<and>
   mysql_create_comment sample_env sample_mysql 2 (Some ''nice'') 1 = (Error 404 PhotoNotFound, sample_mysql) \<and>
   fst (mongo_create_comment sample_env sample_mongo 10 (Some ''nice'') 7) =
     Success 201 \<lparr>c_id = 1, c_photo = 10, c_author = 7, c_text = ''nice'', c_createdAt = 1000\<rparr> \<and>
   fst (mysql_create_comment sample_env sample_mysql 1 (Some ''nice'') 1) =
     Success 201 (Some \<lparr>k_id = 1, k_text = ''nice'', k_createdAt = 1000, k_authorId = 1,
                         k_authorUsername = ''alice'', k_authorEmail = ''a@x.com''\<rparr>)"
proof -
  have m: "findById (Photo sample_mongo) 11 = None"
          "findById (Photo sample_mongo) 10 = Some sample_photo"
    by (simp_all add: sample_mongo_def sample_photo_def findById_def)
  have r: "filter (\<lambda>p. photos_id p = 2) (photos sample_mysql) = []"
          "filter (\<lambda>p. photos_id p = 1) (photos sample_mysql) \<noteq> []"
          "\<forall>c \<in> set (comments sample_mysql). comments_id c \<noteq> comments_auto sample_mysql"
          "filter (\<lambda>u. users_id u = 1) (users sample_mysql) = hd (users sample_mysql) # []"
          "users_username (hd (users sample_mysql)) = ''alice''"
          "users_email (hd (users sample_mysql)) = ''a@x.com''"
          "comments_auto sample_mysql = 1"
    by (simp_all add: sample_mysql_def)
  have e: "new_oid sample_env = 1" "now sample_env = 1000" "falsy (Some [])"
    by (simp_all add: sample_env_def falsy_def)
  show ?thesis
    using create_comment_outcomes [of "Some []" sample_env sample_mongo 10 7 sample_mysql 1 1
             "''nice''" sample_photo "hd (users sample_mysql)" "[]"]
          create_comment_outcomes [of "Some []" sample_env sample_mongo 11 7 sample_mysql 2 1
             "''nice''" sample_photo "hd (users sample_mysql)" "[]"]
          m r e
    by auto
qed

subsection \<open>Listing photos\<close>

lemma page_window_plain:
  "0 \<le> s \<Longrightarrow> s < 2 ^ 53 \<Longrightarrow> 0 < l \<Longrightarrow> l < 2 ^ 53 \<Longrightarrow>
   page_window E (Num s) (Num l) xs = Some (take (nat l) (drop (nat s) xs))"
  by (simp add: page_window_def plain_range_def exact_def)

lemmas parseInt_eval =
  parseInt_def trim_start.simps white_space_length_def unicode_spaces_def is_space_def
  is_digit_def exact_def

lemma parseInt_samples:
  "parseInt ''1'' = Num 1" "parseInt ''2'' = Num 2" "parseInt ''3'' = Num 3"
  "parseInt ''5'' = Num 5" "parseInt ''10'' = Num 10" "parseInt ''abc'' = NaN"
  by (simp_all add: parseInt_eval)

lemma skip_plain:
  assumes "1 \<le> p" "1 \<le> l" "(p - 1) * l < 2 ^ 53"
  shows "js_mul (js_sub (Num p) (Num 1)) (Num l) = Num ((p - 1) * l)"
proof -
  have "(p - 1) * 1 \<le> (p - 1) * l" using assms by (intro mult_left_mono) simp_all
  then have "p - 1 < 2 ^ 53" using assms by simp
  then have "js_sub (Num p) (Num 1) = Num (p - 1)" using assms by (simp add: exact_def)
  moreover have "0 \<le> (p - 1) * l" using assms by simp
  ultimately show ?thesis using assms by (simp add: exact_def)
qed

lemma newest_first_sort_key: "newest_first f (sort_key (\<lambda>x. - f x) xs)"
proof -
  have "sorted (map (\<lambda>x. - f x) (sort_key (\<lambda>x. - f x) xs))" by (rule sorted_sort_key)
  then show ?thesis by (simp add: newest_first_def sorted_map)
qed

lemma newest_first_map:
  "newest_first f (map g xs) = newest_first (\<lambda>x. f (g x)) xs"
  by (simp add: newest_first_def sorted_wrt_map)

lemma newest_first_unique:
  assumes m: "mset xs = mset ys" and d: "distinct (map f xs)"
    and sx: "newest_first f xs" and sy: "newest_first f ys"
  shows "xs = ys"
proof -
  have sets: "set xs = set ys" using m by (rule mset_eq_setD)
  have dy: "distinct (map f ys)"
  proof -
    have "mset (map f xs) = mset (map f ys)" using m by simp
    then show ?thesis using d by (metis distinct_count_atmost_1 set_mset_mset)
  qed
  let ?g = "\<lambda>x. - f x"
  have s1: "sorted (map ?g xs)" using sx by (simp add: newest_first_def sorted_map)
  have s2: "sorted (map ?g ys)" using sy by (simp add: newest_first_def sorted_map)
  have inj: "inj ((\<lambda>i. - i) :: int \<Rightarrow> int)" by (simp add: inj_on_def)
  have d1: "distinct (map ?g xs)"
    using d distinct_map[of "\<lambda>i::int. - i" "map f xs"] inj
    by (simp add: comp_def inj_on_def)
  have d2: "distinct (map ?g ys)"
    using dy distinct_map[of "\<lambda>i::int. - i" "map f ys"] inj
    by (simp add: comp_def inj_on_def)
  have "set (map ?g xs) = set (map ?g ys)" using sets by simp
  then have eq: "map ?g xs = map ?g ys"
    by (rule sorted_distinct_set_unique[OF s1 d1 s2 d2])
  have "inj_on ?g (set xs \<union> set ys)"
    using d1 sets by (simp add: distinct_map)
  then show ?thesis using eq by (simp add: inj_on_map_eq_map)
qed

lemma mongo_list_plain:
  assumes "parseInt (or_default pq ''1'') = Num p" "parseInt (or_default lq ''10'') = Num l"
    and "1 \<le> p" "1 \<le> l" "(p - 1) * l < 2 ^ 53" "l < 2 ^ 53"
  shows "mongo_list_photos E db pq lq =
          Success 200
            \<lparr>l_page = Num p, l_limit = Num l, l_total = length (Photo db),
             l_items = map (\<lambda>x. (x, populate (User db) (p_owner x)))
                         (take (nat l) (drop (nat ((p - 1) * l))
                            (sort_key (\<lambda>x. - p_createdAt x) (Photo db))))\<rparr>"
proof -
  have sk: "js_mul (js_sub (Num p) (Num 1)) (Num l) = Num ((p - 1) * l)"
    using assms by (simp only: skip_plain)
  have "0 \<le> (p - 1) * l" using assms by simp
  then show ?thesis
    unfolding mongo_list_photos_def Let_def assms(1,2) sk
    using assms(3-) by (simp add: page_window_plain)
qed

lemma mysql_list_plain:
  assumes "parseInt (or_default pq ''1'') = Num p" "parseInt (or_default lq ''10'') = Num l"
    and "1 \<le> p" "1 \<le> l" "(p - 1) * l < 2 ^ 53" "l < 2 ^ 53"
  shows "mysql_list_photos E db pq lq =
          Success 200
            \<lparr>l_page = Num p, l_limit = Num l, l_total = length (photos db),
             l_items = take (nat l) (drop (nat ((p - 1) * l))
                         (sort_key (\<lambda>r. - v_createdAt r) (photos_join_users db)))\<rparr>"
proof -
  have sk: "js_mul (js_sub (Num p) (Num 1)) (Num l) = Num ((p - 1) * l)"
    using assms by (simp only: skip_plain)
  have "0 \<le> (p - 1) * l" using assms by simp
  then show ?thesis
    unfolding mysql_list_photos_def Let_def assms(1,2) sk
    using assms(3-) by (simp add: page_window_plain)
qed

lemma mongo_list_total:
  "mongo_list_photos E db pq lq = Success c b \<Longrightarrow> c = 200 \<and> l_total b = length (Photo db)"
  by (auto simp: mongo_list_photos_def Let_def split: option.splits)

lemma mysql_list_total:
  "mysql_list_photos E db pq lq = Success c b \<Longrightarrow> c = 200 \<and> l_total b = length (photos db)"
  by (auto simp: mysql_list_photos_def Let_def split: option.splits)

lemma join_rows_photos:
  assumes "\<forall>p \<in> set ps. length (filter (\<lambda>u. users_id u = photos_owner_id p) us) = 1"
  shows "map item_photo
           (concat (map (\<lambda>p. map (\<lambda>u. \<lparr>v_id = photos_id p, v_url = photos_url p,
                                 v_caption = photos_caption p,
                                 v_createdAt = photos_created_at p,
                                 v_ownerId = users_id u, v_ownerUsername = users_username u,
                                 v_ownerEmail = users_email u,
                                 v_likesCount = n p\<rparr>)
                        (filter (\<lambda>u. users_id u = photos_owner_id p) us)) ps)) = ps"
  using assms
proof (induction ps)
  case Nil
  then show ?case by simp
next
  case (Cons p ps)
  then have "length (filter (\<lambda>u. users_id u = photos_owner_id p) us) = 1" by simp
  then obtain u where f: "filter (\<lambda>u. users_id u = photos_owner_id p) us = [u]"
    by (cases "filter (\<lambda>u. users_id u = photos_owner_id p) us") auto
  then have "u \<in> set (filter (\<lambda>u. users_id u = photos_owner_id p) us)" by simp
  then have "users_id u = photos_owner_id p" by simp
  then show ?case using Cons f by (simp add: item_photo_def)
qed

lemma item_photo_join:
  "owners_present db \<Longrightarrow> map item_photo (photos_join_users db) = photos db"
  unfolding photos_join_users_def owners_present_def list_all_iff
  by (rule join_rows_photos)

lemma created_item_photo: "photos_created_at (item_photo r) = v_createdAt r"
  by (simp add: item_photo_def)


lemma mongo_second_page:
  assumes n: "10 \<le> length (Photo db)"
  shows "\<exists>its srt.
           mongo_list_photos E db (Some ''2'') (Some ''5'') =
             Success 200 \<lparr>l_page = Num 2, l_limit = Num 5, l_total = length (Photo db),
                           l_items = its\<rparr> \<and>
           length its = 5 \<and>
           mset srt = mset (Photo db) \<and> newest_first p_createdAt srt \<and>
           map fst its = take 5 (drop 5 srt) \<and>
           (distinct (map p_createdAt (Photo db)) \<longrightarrow>
              (\<forall>srt'. mset srt' = mset (Photo db) \<and> newest_first p_createdAt srt' \<longrightarrow>
                      map fst its = take 5 (drop 5 srt')))"
proof -
  let ?srt = "sort_key (\<lambda>x. - p_createdAt x) (Photo db)"
  let ?its = "map (\<lambda>x. (x, populate (User db) (p_owner x))) (take 5 (drop 5 ?srt))"
  have r: "mongo_list_photos E db (Some ''2'') (Some ''5'') =
             Success 200 \<lparr>l_page = Num 2, l_limit = Num 5, l_total = length (Photo db),
                           l_items = ?its\<rparr>"
    using mongo_list_plain[of "Some ''2''" 2 "Some ''5''" 5 E db]
    by (simp add: or_default_def parseInt_samples)
  have len: "length ?its = 5" using n by simp
  have ms: "mset ?srt = mset (Photo db)" by simp
  have nf: "newest_first p_createdAt ?srt" by (rule newest_first_sort_key)
  have fs: "map fst ?its = take 5 (drop 5 ?srt)" by (simp add: comp_def)
  have un: "distinct (map p_createdAt (Photo db)) \<longrightarrow>
              (\<forall>srt'. mset srt' = mset (Photo db) \<and> newest_first p_createdAt srt' \<longrightarrow>
                      map fst ?its = take 5 (drop 5 srt'))"
  proof (intro impI allI)
    fix srt'
    assume d: "distinct (map p_createdAt (Photo db))"
      and a: "mset srt' = mset (Photo db) \<and> newest_first p_createdAt srt'"
    have "mset (map p_createdAt srt') = mset (map p_createdAt (Photo db))" using a by simp
    then have d': "distinct (map p_createdAt srt')"
      using d by (metis distinct_count_atmost_1 set_mset_mset)
    have "srt' = ?srt"
      using newest_first_unique[of srt' ?srt p_createdAt] a d' nf by simp
    then show "map fst ?its = take 5 (drop 5 srt')" using fs by simp
  qed
  show ?thesis using r len ms nf fs un by blast
qed

lemma mysql_second_page:
  assumes n: "10 \<le> length (photos db)" and o: "owners_present db"
  shows "\<exists>its srt.
           mysql_list_photos E db (Some ''2'') (Some ''5'') =
             Success 200 \<lparr>l_page = Num 2, l_limit = Num 5, l_total = length (photos db),
                           l_items = its\<rparr> \<and>
           length its = 5 \<and>
           mset srt = mset (photos db) \<and> newest_first photos_created_at srt \<and>
           map item_photo its = take 5 (drop 5 srt) \<and>
           (distinct (map photos_created_at (photos db)) \<longrightarrow>
              (\<forall>srt'. mset srt' = mset (photos db) \<and> newest_first photos_created_at srt' \<longrightarrow>
                      map item_photo its = take 5 (drop 5 srt')))"
proof -
  let ?rows = "sort_key (\<lambda>r. - v_createdAt r) (photos_join_users db)"
  let ?its = "take 5 (drop 5 ?rows)"
  let ?srt = "map item_photo ?rows"
  have r: "mysql_list_photos E db (Some ''2'') (Some ''5'') =
             Success 200 \<lparr>l_page = Num 2, l_limit = Num 5, l_total = length (photos db),
                           l_items = ?its\<rparr>"
    using mysql_list_plain[of "Some ''2''" 2 "Some ''5''" 5 E db]
    by (simp add: or_default_def parseInt_samples)
  have "length (photos_join_users db) = length (photos db)"
    using item_photo_join[OF o] by (metis length_map)
  then have len: "length ?its = 5" using n by simp
  have "mset ?srt = mset (map item_photo (photos_join_users db))" by simp
  then have ms: "mset ?srt = mset (photos db)" using item_photo_join[OF o] by simp
  have "newest_first v_createdAt ?rows" by (rule newest_first_sort_key)
  then have nf: "newest_first photos_created_at ?srt"
    by (simp add: newest_first_map created_item_photo)
  have fs: "map item_photo ?its = take 5 (drop 5 ?srt)" by (simp add: take_map drop_map)
  have un: "distinct (map photos_created_at (photos db)) \<longrightarrow>
              (\<forall>srt'. mset srt' = mset (photos db) \<and> newest_first photos_created_at srt' \<longrightarrow>
                      map item_photo ?its = take 5 (drop 5 srt'))"
  proof (intro impI allI)
    fix srt'
    assume d: "distinct (map photos_created_at (photos db))"
      and a: "mset srt' = mset (photos db) \<and> newest_first photos_created_at srt'"
    have "mset (map photos_created_at srt') = mset (map photos_created_at (photos db))"
      using a by simp
    then have d': "distinct (map photos_created_at srt')"
      using d by (metis distinct_count_atmost_1 set_mset_mset)
    have "srt' = ?srt"
      using newest_first_unique[of srt' ?srt photos_created_at] a d' nf ms by simp
    then show "map item_photo ?its = take 5 (drop 5 srt')" using fs by simp
  qed
  show ?thesis using r len ms nf fs un by blast
qed

text \<open>
  C8. With at least ten photos in the store, the second page of five is answered 200
  with five items, and they are the sixth to the tenth photo of an ordering of all
  photos newest first by creation time; when the creation times are pairwise distinct
  that ordering is the only one. (In the MySQL variant the items are rows of the join
  with \<open>users\<close>, so every photo's owner has to be a user.) Whatever the page and limit
  parameters are, a response that carries a total carries the number of all stored
  photos; and for every page of at least 1 and limit of at least 1 (exact numbers) the
  response is such a 200.
\<close>

theorem list_photos_second_page_and_total:
  "(10 \<le> length (Photo db) \<longrightarrow>
      (\<exists>its srt.
         mongo_list_photos E db (Some ''2'') (Some ''5'') =
           Success 200 \<lparr>l_page = Num 2, l_limit = Num 5, l_total = length (Photo db),
                         l_items = its\<rparr> \<and>
         length its = 5 \<and>
         mset srt = mset (Photo db) \<and> newest_first p_createdAt srt \<and>
         map fst its = take 5 (drop 5 srt) \<and>
         (distinct (map p_createdAt (Photo db)) \<longrightarrow>
            (\<forall>srt'. mset srt' = mset (Photo db) \<and> newest_first p_createdAt srt' \<longrightarrow>
                    map fst its = take 5 (drop 5 srt')))))
   \<and>
   (10 \<le> length (photos rdb) \<and> owners_present rdb \<longrightarrow>
      (\<exists>its srt.
         mysql_list_photos E rdb (Some ''2'') (Some ''5'') =
           Success 200 \<lparr>l_page = Num 2, l_limit = Num 5, l_total = length (photos rdb),
                         l_items = its\<rparr> \<and>
         length its = 5 \<and>
         mset srt = mset (photos rdb) \<and> newest_first photos_created_at srt \<and>
         map item_photo its = take 5 (drop 5 srt) \<and>
         (distinct (map photos_created_at (photos rdb)) \<longrightarrow>
            (\<forall>srt'. mset srt' = mset (photos rdb) \<and> newest_first photos_created_at srt' \<longrightarrow>
                    map item_photo its = take 5 (drop 5 srt')))))
   \<and>
   (mongo_list_photos E db pq lq = Success c b \<longrightarrow> c = 200 \<and> l_total b = length (Photo db))
   \<and>
   (mysql_list_photos E rdb pq lq = Success c' b' \<longrightarrow>
      c' = 200 \<and> l_total b' = length (photos rdb))
   \<and>
   (parseInt (or_default pq ''1'') = Num p \<and> parseInt (or_default lq ''10'') = Num l \<and>
    1 \<le> p \<and> 1 \<le> l \<and> (p - 1) * l < 2 ^ 53 \<and> l < 2 ^ 53 \<longrightarrow>
      (\<exists>its. mongo_list_photos E db pq lq =
                Success 200 \<lparr>l_page = Num p, l_limit = Num l, l_total = length (Photo db),
                              l_items = its\<rparr>) \<and>
      (\<exists>its. mysql_list_photos E rdb pq lq =
                Success 200 \<lparr>l_page = Num p, l_limit = Num l, l_total = length (photos rdb),
                              l_items = its\<rparr>))"
proof (intro conjI impI)
  assume "10 \<le> length (Photo db)"
  then show "\<exists>its srt.
         mongo_list_photos E db (Some ''2'') (Some ''5'') =
           Success 200 \<lparr>l_page = Num 2, l_limit = Num 5, l_total = length (Photo db),
                         l_items = its\<rparr> \<and>
         length its = 5 \<and>
         mset srt = mset (Photo db) \<and> newest_first p_createdAt srt \<and>
         map fst its = take 5 (drop 5 srt) \<and>
         (distinct (map p_createdAt (Photo db)) \<longrightarrow>
            (\<forall>srt'. mset srt' = mset (Photo db) \<and> newest_first p_createdAt srt' \<longrightarrow>
                    map fst its = take 5 (drop 5 srt')))"
    by (rule mongo_second_page)
next
  assume "10 \<le> length (photos rdb) \<and> owners_present rdb"
  then show "\<exists>its srt.
         mysql_list_photos E rdb (Some ''2'') (Some ''5'') =
           Success 200 \<lparr>l_page = Num 2, l_limit = Num 5, l_total = length (photos rdb),
                         l_items = its\<rparr> \<and>
         length its = 5 \<and>
         mset srt = mset (photos rdb) \<and> newest_first photos_created_at srt \<and>
         map item_photo its = take 5 (drop 5 srt) \<and>
         (distinct (map photos_created_at (photos rdb)) \<longrightarrow>
            (\<forall>srt'. mset srt' = mset (photos rdb) \<and> newest_first photos_created_at srt' \<longrightarrow>
                    map item_photo its = take 5 (drop 5 srt')))"
    using mysql_second_page[of rdb E] by simp
next
  assume "mongo_list_photos E db pq lq = Success c b"
  then show "c = 200" and "l_total b = length (Photo db)"
    using mongo_list_total by auto
next
  assume "mysql_list_photos E rdb pq lq = Success c' b'"
  then show "c' = 200" and "l_total b' = length (photos rdb)"
    using mysql_list_total by auto
next
  assume a: "parseInt (or_default pq ''1'') = Num p \<and> parseInt (or_default lq ''10'') = Num l \<and>
    1 \<le> p \<and> 1 \<le> l \<and> (p - 1) * l < 2 ^ 53 \<and> l < 2 ^ 53"
  show "\<exists>its. mongo_list_photos E db pq lq =
                Success 200 \<lparr>l_page = Num p, l_limit = Num l, l_total = length (Photo db),
                              l_items = its\<rparr>"
    using a mongo_list_plain[of pq p lq l E db] by simp
  show "\<exists>its. mysql_list_photos E rdb pq lq =
                Success 200 \<lparr>l_page = Num p, l_limit = Num l, l_total = length (photos rdb),
                              l_items = its\<rparr>"
    using a mysql_list_plain[of pq p lq l E rdb] by simp
qed

theorem list_photos_second_page_and_total_witness:
  "10 \<le> length (Photo sample_gallery) \<and>
   10 \<le> length (photos sample_gallery_mysql) \<and> owners_present sample_gallery_mysql \<and>
   (\<exists>its. mongo_list_photos sample_env sample_gallery (Some ''2'') (Some ''5'') =
            Success 200 \<lparr>l_page = Num 2, l_limit = Num 5, l_total = 12, l_items = its\<rparr> \<and>
          map p_id (map fst its) = [7, 6, 5, 4, 3]) \<and>
   (\<exists>its. mysql_list_photos sample_env sample_gallery_mysql (Some ''2'') (Some ''5'') =
            Success 200 \<lparr>l_page = Num 2, l_limit = Num 5, l_total = 12, l_items = its\<rparr> \<and>
          map v_id its = [7, 6, 5, 4, 3]) \<and>
   mongo_list_photos sample_env sample_gallery (Some ''3'') None =
     Success 200 \<lparr>l_page = Num 3, l_limit = Num 10, l_total = 12, l_items = []\<rparr> \<and>
   mysql_list_photos sample_env sample_gallery_mysql (Some ''3'') None =
     Success 200 \<lparr>l_page = Num 3, l_limit = Num 10, l_total = 12, l_items = []\<rparr>"
proof -
  have h1: "10 \<le> length (Photo sample_gallery)" "length (Photo sample_gallery) = 12"
    by (simp_all add: sample_gallery_def sample_mongo_def)
  have h2: "10 \<le> length (photos sample_gallery_mysql)" "owners_present sample_gallery_mysql"
    "length (photos sample_gallery_mysql) = 12"
    by (simp_all add: sample_gallery_mysql_def sample_mysql_def owners_present_def)
  have h3: "parseInt (or_default (Some ''3'') ''1'') = Num 3"
    "parseInt (or_default None ''10'') = Num 10"
    by (simp_all add: or_default_def parseInt_samples)
  have e1: "mongo_list_photos sample_env sample_gallery (Some ''2'') (Some ''5'') =
      Success 200 \<lparr>l_page = Num 2, l_limit = Num 5, l_total = 12,
        l_items = map (\<lambda>n. (\<lparr>p_id = n, p_owner = 7, p_url = ''/uploads/image.png'',
                              p_caption = None, p_likes = [], p_createdAt = 100 * int n\<rparr>,
                            Some \<lparr>s_id = 7, s_username = ''alice'', s_email = ''a@x.com''\<rparr>))
                    [7, 6, 5, 4, 3]\<rparr>"
    by (simp add: mongo_list_photos_def sample_gallery_def sample_mongo_def parseInt_samples
        or_default_def page_window_def plain_range_def exact_def populate_def Let_def)
  have e2: "mysql_list_photos sample_env sample_gallery_mysql (Some ''2'') (Some ''5'') =
      Success 200 \<lparr>l_page = Num 2, l_limit = Num 5, l_total = 12,
        l_items = map (\<lambda>n. \<lparr>v_id = n, v_url = ''/uploads/image.png'', v_caption = None,
                             v_createdAt = 100 * int n, v_ownerId = 1,
                             v_ownerUsername = ''alice'', v_ownerEmail = ''a@x.com'',
                             v_likesCount = 0\<rparr>)
                    [7, 6, 5, 4, 3]\<rparr>"
    by (simp add: mysql_list_photos_def sample_gallery_mysql_def sample_mysql_def
        parseInt_samples or_default_def page_window_def plain_range_def exact_def photos_join_users_def
        count_likes_def Let_def)
  have e3: "mongo_list_photos sample_env sample_gallery (Some ''3'') None =
      Success 200 \<lparr>l_page = Num 3, l_limit = Num 10, l_total = 12, l_items = []\<rparr>"
    using h1 h3 by (simp add: mongo_list_photos_def page_window_def plain_range_def exact_def Let_def)
  have e4: "mysql_list_photos sample_env sample_gallery_mysql (Some ''3'') None =
      Success 200 \<lparr>l_page = Num 3, l_limit = Num 10, l_total = 12, l_items = []\<rparr>"
    using h2 h3
    by (simp add: mysql_list_photos_def page_window_def plain_range_def exact_def Let_def
        sample_gallery_mysql_def sample_mysql_def photos_join_users_def)
  show ?thesis
    using list_photos_second_page_and_total
            [of sample_gallery sample_env sample_gallery_mysql "Some ''3''" None 200
                "\<lparr>l_page = Num 3, l_limit = Num 10, l_total = 12, l_items = []\<rparr>" 200
                "\<lparr>l_page = Num 3, l_limit = Num 10, l_total = 12, l_items = []\<rparr>" 3 10]
          h1 h2 h3
    by (simp add: e1 e2 e3 e4)
qed

lemma mongo_list_nan_page:
  "mongo_list_photos E db (Some ''abc'') lq = Error 500 ServerFault \<or>
   (\<exists>b. mongo_list_photos E db (Some ''abc'') lq = Success 200 b \<and> l_page b = NaN)"
  by (simp add: mongo_list_photos_def or_default_def parseInt_samples Let_def
      split: option.splits)

lemma mysql_list_nan_page:
  "mysql_list_photos E db (Some ''abc'') lq = Error 500 ServerFault \<or>
   (\<exists>b. mysql_list_photos E db (Some ''abc'') lq = Success 200 b \<and> l_page b = NaN)"
  by (simp add: mysql_list_photos_def or_default_def parseInt_samples Let_def
      split: option.splits)

lemma mongo_list_nan_limit:
  "mongo_list_photos E db pq (Some ''abc'') = Error 500 ServerFault \<or>
   (\<exists>b. mongo_list_photos E db pq (Some ''abc'') = Success 200 b \<and> l_limit b = NaN)"
  by (simp add: mongo_list_photos_def or_default_def parseInt_samples Let_def
      split: option.splits)

lemma mysql_list_nan_limit:
  "mysql_list_photos E db pq (Some ''abc'') = Error 500 ServerFault \<or>
   (\<exists>b. mysql_list_photos E db pq (Some ''abc'') = Success 200 b \<and> l_limit b = NaN)"
  by (simp add: mysql_list_photos_def or_default_def parseInt_samples Let_def
      split: option.splits)

lemma list_first_page:
  "\<exists>its. mongo_list_photos E db (Some ''1'') (Some ''10'') =
            Success 200 \<lparr>l_page = Num 1, l_limit = Num 10, l_total = length (Photo db),
                          l_items = its\<rparr>"
  "\<exists>its. mysql_list_photos E rdb (Some ''1'') (Some ''10'') =
            Success 200 \<lparr>l_page = Num 1, l_limit = Num 10, l_total = length (photos rdb),
                          l_items = its\<rparr>"
  using mongo_list_plain[of "Some ''1''" 1 "Some ''10''" 10 E db]
        mysql_list_plain[of "Some ''1''" 1 "Some ''10''" 10 E rdb]
  by (simp_all add: or_default_def parseInt_samples)

text \<open>
  C9. The claim holds for a parameter that is absent or empty, and the code breaks it
  for one that is sent but is no number. Both handlers read the page as
  \<open>parseInt(req.query.page || "1", 10)\<close>: the default stands in for a missing or empty
  value only. For \<open>page=abc\<close> the page is \<open>NaN\<close>, and so is the skip; the response is a
  500, or a 200 that carries \<open>NaN\<close> as its page, and in no store and over no storage is
  it the response to \<open>page=1\<close> and \<open>limit=10\<close>, which is a 200 with page 1. The same
  holds for \<open>limit=abc\<close>. On the sample gallery the answer is 500 over the storage that
  rejects the query, and carries \<open>NaN\<close> over the one that lets it pass.
\<close>

theorem list_photos_unparsable_page:
  "mongo_list_photos E db None None = mongo_list_photos E db (Some ''1'') (Some ''10'') \<and>
   mongo_list_photos E db (Some []) (Some []) =
     mongo_list_photos E db (Some ''1'') (Some ''10'') \<and>
   mysql_list_photos E rdb None None = mysql_list_photos E rdb (Some ''1'') (Some ''10'') \<and>
   mysql_list_photos E rdb (Some []) (Some []) =
     mysql_list_photos E rdb (Some ''1'') (Some ''10'') \<and>
   status_of (mongo_list_photos E db (Some ''1'') (Some ''10'')) = 200 \<and>
   status_of (mysql_list_photos E rdb (Some ''1'') (Some ''10'')) = 200 \<and>
   map_option l_page (body_of (mongo_list_photos E db (Some ''1'') (Some ''10''))) =
     Some (Num 1) \<and>
   map_option l_page (body_of (mysql_list_photos E rdb (Some ''1'') (Some ''10''))) =
     Some (Num 1) \<and>
   mongo_list_photos E db (Some ''abc'') None \<noteq>
     mongo_list_photos E db (Some ''1'') (Some ''10'') \<and>
   mysql_list_photos E rdb (Some ''abc'') None \<noteq>
     mysql_list_photos E rdb (Some ''1'') (Some ''10'') \<and>
   mongo_list_photos E db None (Some ''abc'') \<noteq>
     mongo_list_photos E db (Some ''1'') (Some ''10'') \<and>
   mysql_list_photos E rdb None (Some ''abc'') \<noteq>
     mysql_list_photos E rdb (Some ''1'') (Some ''10'') \<and>
   mongo_list_photos sample_env sample_gallery (Some ''abc'') None = Error 500 ServerFault \<and>
   mysql_list_photos sample_env sample_gallery_mysql (Some ''abc'') None
     = Error 500 ServerFault \<and>
   map_option l_page
     (body_of (mongo_list_photos lenient_env sample_gallery (Some ''abc'') None)) = Some NaN \<and>
   map_option l_page
     (body_of (mysql_list_photos lenient_env sample_gallery_mysql (Some ''abc'') None))
     = Some NaN"
proof -
  obtain mi where m1: "mongo_list_photos E db (Some ''1'') (Some ''10'') =
      Success 200 \<lparr>l_page = Num 1, l_limit = Num 10, l_total = length (Photo db),
                    l_items = mi\<rparr>"
    using list_first_page(1) by blast
  obtain ri where r1: "mysql_list_photos E rdb (Some ''1'') (Some ''10'') =
      Success 200 \<lparr>l_page = Num 1, l_limit = Num 10, l_total = length (photos rdb),
                    l_items = ri\<rparr>"
    using list_first_page(2) by blast
  have d1: "mongo_list_photos E db None None = mongo_list_photos E db (Some ''1'') (Some ''10'')"
    "mongo_list_photos E db (Some []) (Some []) =
       mongo_list_photos E db (Some ''1'') (Some ''10'')"
    by (simp_all add: mongo_list_photos_def or_default_def)
  have d2: "mysql_list_photos E rdb None None = mysql_list_photos E rdb (Some ''1'') (Some ''10'')"
    "mysql_list_photos E rdb (Some []) (Some []) =
       mysql_list_photos E rdb (Some ''1'') (Some ''10'')"
    by (simp_all add: mysql_list_photos_def or_default_def)
  have n1: "mongo_list_photos E db (Some ''abc'') None \<noteq>
              mongo_list_photos E db (Some ''1'') (Some ''10'')"
    using mongo_list_nan_page[of E db None] m1 by auto
  have n2: "mysql_list_photos E rdb (Some ''abc'') None \<noteq>
              mysql_list_photos E rdb (Some ''1'') (Some ''10'')"
    using mysql_list_nan_page[of E rdb None] r1 by auto
  have n3: "mongo_list_photos E db None (Some ''abc'') \<noteq>
              mongo_list_photos E db (Some ''1'') (Some ''10'')"
    using mongo_list_nan_limit[of E db None] m1 by auto
  have n4: "mysql_list_photos E rdb None (Some ''abc'') \<noteq>
              mysql_list_photos E rdb (Some ''1'') (Some ''10'')"
    using mysql_list_nan_limit[of E rdb None] r1 by auto
  have c: "mongo_list_photos sample_env sample_gallery (Some ''abc'') None
             = Error 500 ServerFault"
    "mysql_list_photos sample_env sample_gallery_mysql (Some ''abc'') None
             = Error 500 ServerFault"
    "map_option l_page
       (body_of (mongo_list_photos lenient_env sample_gallery (Some ''abc'') None)) = Some NaN"
    "map_option l_page
       (body_of (mysql_list_photos lenient_env sample_gallery_mysql (Some ''abc'') None))
       = Some NaN"
    by (simp_all add: mongo_list_photos_def mysql_list_photos_def parseInt_samples
        or_default_def page_window_def plain_range_def sample_env_def lenient_env_def Let_def)
  show ?thesis
    using d1 d2 n1 n2 n3 n4 c by (simp add: m1 r1)
qed

end
